theory Spec2Isabelle
  imports Complex_Main "HOL-Library.AList"
begin

section \<open>Values of the host language\<close>

text \<open>
  Strings are lists of 8-bit code units (the ASCII / Latin-1 range of the source's
  strings).  The empty string is the only falsy string; a missing property
  (\<open>undefined\<close>) of a style declaration is read as the empty string, which the
  source's truthiness tests cannot tell apart from it.
\<close>

datatype error = TypeError | HostFailure

text \<open>
  Numbers: a real value or \<open>NaN\<close>.  The rounding of IEEE doubles is not part of the
  model; \<open>NaN\<close> is, because \<open>parseFloat\<close> produces it.
\<close>

datatype number = NaN | Num real

fun num_sub :: "number \<Rightarrow> number \<Rightarrow> number" where
  "num_sub (Num a) (Num b) = Num (a - b)"
| "num_sub _ _ = NaN"

text \<open>\<open>Math.round\<close>: the nearest integer, a tie going up.\<close>

fun Math_round :: "number \<Rightarrow> number" where
  "Math_round (Num a) = Num (of_int \<lfloor>a + 1 / 2\<rfloor>)"
| "Math_round NaN = NaN"

text \<open>Truthiness of an optional number: \<open>undefined\<close>, \<open>0\<close> and \<open>NaN\<close> are falsy.\<close>

fun truthy_number :: "number option \<Rightarrow> bool" where
  "truthy_number None = False"
| "truthy_number (Some NaN) = False"
| "truthy_number (Some (Num a)) = (a \<noteq> 0)"

subsection \<open>Character classes of the border pattern\<close>

definition is_digit :: "char \<Rightarrow> bool" where
  "is_digit c = (c \<in> set ''0123456789'')"

text \<open>The class \<open>[\d\.]\<close>.\<close>

definition is_digit_or_dot :: "char \<Rightarrow> bool" where
  "is_digit_or_dot c = (is_digit c \<or> c = CHR ''.'')"

text \<open>The class \<open>\w\<close>.\<close>

definition is_word :: "char \<Rightarrow> bool" where
  "is_word c =
     (c \<in> set ''abcdefghijklmnopqrstuvwxyzABCDEFGHIJKLMNOPQRSTUVWXYZ0123456789_'')"

text \<open>
  The class \<open>\s\<close> within the 8-bit range: tab, line feed, vertical tab, form feed,
  carriage return, space and no-break space.  The same characters are the ones
  \<open>trim\<close> removes.
\<close>

definition is_space :: "char \<Rightarrow> bool" where
  "is_space c =
     (c \<in> set [CHR 0x09, CHR 0x0A, CHR 0x0B, CHR 0x0C, CHR 0x0D, CHR 0x20, CHR 0xA0])"

text \<open>The characters \<open>.\<close> does not match: line feed and carriage return.\<close>

definition is_line_terminator :: "char \<Rightarrow> bool" where
  "is_line_terminator c = (c \<in> set [CHR 0x0A, CHR 0x0D])"

subsection \<open>String methods\<close>

definition startsWith :: "string \<Rightarrow> string \<Rightarrow> bool" where
  "startsWith s t = (take (length t) s = t)"

definition endsWith :: "string \<Rightarrow> string \<Rightarrow> bool" where
  "endsWith s t = (length t \<le> length s \<and> drop (length s - length t) s = t)"

text \<open>\<open>s.includes(t)\<close>: \<open>t\<close> occurs in \<open>s\<close> as a contiguous run.\<close>

fun str_includes :: "string \<Rightarrow> string \<Rightarrow> bool" where
  "str_includes [] t = (t = [])"
| "str_includes (c # cs) t = (startsWith (c # cs) t \<or> str_includes cs t)"

definition trim :: "string \<Rightarrow> string" where
  "trim s = rev (dropWhile is_space (rev (dropWhile is_space s)))"

text \<open>\<open>toUpperCase\<close> on one character; only the ASCII letters change.\<close>

definition toUpperCase :: "char \<Rightarrow> char" where
  "toUpperCase c =
     (case map_of (zip ''abcdefghijklmnopqrstuvwxyz'' ''ABCDEFGHIJKLMNOPQRSTUVWXYZ'') c of
        Some u \<Rightarrow> u
      | None \<Rightarrow> c)"

text \<open>
  \<open>capitalize = (str) => str[0].toUpperCase() + str.substring(1)\<close>.  On the empty
  string \<open>str[0]\<close> is \<open>undefined\<close> and the method call raises a TypeError.
\<close>

fun capitalize :: "string \<Rightarrow> error + string" where
  "capitalize [] = Inl TypeError"
| "capitalize (c # cs) = Inr (toUpperCase c # cs)"

text \<open>
  \<open>parseFloat\<close> on a string of digits and dots, the only strings the source passes
  to it (the first group of the border pattern): the longest prefix of the form
  digits, optionally a dot and digits; \<open>NaN\<close> when that prefix holds no digit.
\<close>

definition digit_value :: "char \<Rightarrow> nat" where
  "digit_value c = length (takeWhile (\<lambda>d. d \<noteq> c) ''0123456789'')"

definition digits_value :: "string \<Rightarrow> nat" where
  "digits_value ds = foldl (\<lambda>n c. 10 * n + digit_value c) 0 ds"

definition parseFloat :: "string \<Rightarrow> number" where
  "parseFloat s =
     (let ip = takeWhile is_digit s;
          rest = dropWhile is_digit s;
          fp = (case rest of
                  [] \<Rightarrow> []
                | c # r \<Rightarrow> if c = CHR ''.'' then takeWhile is_digit r else [])
      in if ip = [] \<and> fp = [] then NaN
         else Num (real (digits_value ip) + real (digits_value fp) / 10 ^ length fp))"

text \<open>
  The pattern \<open>/^([\d\.]+)px\s*(\w+)\s*(.*)$/\<close> of both border entry points, as
  \<open>String.match\<close> applies it: the three groups, or \<open>None\<close> for \<open>null\<close>.  Every
  quantifier is greedy and each class is disjoint from what has to follow it, so the
  only match is the one taking each run as long as it goes; it fails when the text
  left for the last group holds a line terminator, which \<open>.\<close> cannot cross before
  \<open>$\<close>.
\<close>

definition border_match :: "string \<Rightarrow> (string \<times> string \<times> string) option" where
  "border_match s =
     (let w = takeWhile is_digit_or_dot s;
          r1 = dropWhile is_digit_or_dot s
      in if w = [] \<or> \<not> startsWith r1 ''px'' then None
         else
           let r2 = dropWhile is_space (drop 2 r1);
               t = takeWhile is_word r2;
               c = dropWhile is_space (dropWhile is_word r2)
           in if t = [] \<or> list_ex is_line_terminator c then None
              else Some (w, t, c))"

section \<open>The document and its style resolver\<close>

text \<open>
  The document the layer tree was built from.  A document node is identified by a
  number.  What this code reads of the document: whether a node is an
  \<open>HTMLElement\<close> or an \<open>SVGElement\<close>, its \<open>parentElement\<close> (\<open>None\<close> for \<open>null\<close>), and
  the \<open>display\<close> value of its inline style (\<open>el.style.display\<close>, the empty string when
  the inline style declares none).  The inline \<open>display\<close> is the one thing this code
  writes.
\<close>

type_synonym dom_node = nat

record dom =
  instanceofHTMLElement :: "dom_node \<Rightarrow> bool"
  instanceofSVGElement :: "dom_node \<Rightarrow> bool"
  parentElement :: "dom_node \<Rightarrow> dom_node option"
  style_display :: "dom_node \<Rightarrow> string"

text \<open>
  The assignment \<open>el.style.display = v\<close> leaves \<open>v\<close> as the inline \<open>display\<close> value of
  \<open>el\<close> (the empty string removes the declaration, which reads as the empty string
  again).  The priority of a declaration is not part of the state:
  \<open>el.style.display\<close> reads the value only, and what the priority does to the cascade
  is the resolver's business.
\<close>

definition set_style_display :: "dom \<Rightarrow> dom_node \<Rightarrow> string \<Rightarrow> dom" where
  "set_style_display d el v = d\<lparr>style_display := (style_display d)(el := v)\<rparr>"

text \<open>
  The method \<open>el.style.setProperty(name, v, priority)\<close>, as the CSS object model
  specifies it, for what it does to the inline \<open>display\<close>: an empty value removes
  the declaration; a priority that is neither the empty string nor \<open>important\<close>
  (whatever the case of its letters) makes the call return without writing;
  otherwise the value is written.  The value is taken to be one the property accepts,
  as \<open>none\<close> is for \<open>display\<close>.  A call for another property leaves the inline
  \<open>display\<close> as it is.
\<close>

definition setProperty :: "dom \<Rightarrow> dom_node \<Rightarrow> string \<Rightarrow> string \<Rightarrow> string \<Rightarrow> dom" where
  "setProperty d el name v priority =
     (if name \<noteq> ''display'' then d
      else if v = [] then set_style_display d el []
      else if priority \<noteq> [] \<and> map toUpperCase priority \<noteq> ''IMPORTANT'' then d
      else set_style_display d el v)"

text \<open>
  The style resolver of the rendering host is a parameter.  \<open>getComputedStyle\<close>
  resolves the style of a node (with an optional pseudo-element) in a state of the
  document and returns a declaration, or fails.  \<open>property\<close> reads a property of a
  declaration by name, given the state of the document at the time of the read: a
  host whose declarations are live uses that state, a host that returns snapshots
  ignores it.  A property the declaration does not have reads as the empty string.
\<close>

record 'decl host =
  getComputedStyle :: "dom \<Rightarrow> dom_node \<Rightarrow> string option \<Rightarrow> error + 'decl"
  property :: "'decl \<Rightarrow> dom \<Rightarrow> string \<Rightarrow> string"

section \<open>Layer nodes\<close>

datatype node_type = RECTANGLE | TEXT | SVG | FRAME | GROUP

text \<open>
  The constraint values of the design tool.  \<open>MIN\<close> and \<open>MAX\<close> carry a prime because
  the unprimed names are taken by the logic.
\<close>

datatype constraint_type = MIN' | CENTER | MAX' | STRETCH | SCALE

record constraints_pair =
  horizontal :: constraint_type
  vertical :: constraint_type

text \<open>The colour a colour string resolves to: \<open>{r, g, b, a}\<close>, the alpha optional.\<close>

record rgba =
  rgb_r :: number
  rgb_g :: number
  rgb_b :: number
  rgb_a :: "number option"

record RGB =
  color_r :: number
  color_g :: number
  color_b :: number

text \<open>
  A paint is a union tagged by \<open>type\<close>; this code builds \<open>SOLID\<close> paints only, with a
  colour and an opacity.
\<close>

datatype Paint = SOLID RGB number | GRADIENT_LINEAR | IMAGE

text \<open>
  The fields of a layer node this code reads or writes; an optional field that is
  absent is \<open>None\<close>.  \<open>data\<close> is the object of string annotations, its keys in
  insertion order.  \<open>ref\<close> is the document node the layer was built from.
\<close>

record LayerNode =
  type :: node_type
  ref :: "dom_node option"
  x_pos :: "number option"
  y_pos :: "number option"
  width :: "number option"
  height :: "number option"
  constraints :: "constraints_pair option"
  data :: "(string \<times> string) list option"
  fills :: "Paint list option"
  strokes :: "Paint list option"
  strokeWeight :: "number option"
  topLeftRadius :: "number option"
  topRightRadius :: "number option"
  bottomRightRadius :: "number option"
  bottomLeftRadius :: "number option"

text \<open>A layer with its children (empty for the kinds that have none).\<close>

datatype layer = Layer LayerNode "layer list"

text \<open>\<open>setData\<close>, lines 5 to 14: create \<open>data\<close> when it is missing, then set the key.\<close>

definition setData :: "LayerNode \<Rightarrow> string \<Rightarrow> string \<Rightarrow> LayerNode" where
  "setData node key v =
     node\<lparr>data := Some (AList.update key v (case data node of None \<Rightarrow> [] | Some al \<Rightarrow> al))\<rparr>"

section \<open>The Constraint Inferencer: \<open>addConstraints\<close>\<close>

text \<open>
  The value of an expression \<open>b && s\<close> or \<open>(b && s) || (c && t)\<close> with \<open>b\<close>, \<open>c\<close>
  booleans and \<open>s\<close>, \<open>t\<close> strings: \<open>false\<close> or a string.
\<close>

datatype js_value = JSFalse | JSString string

fun truthy :: "js_value \<Rightarrow> bool" where
  "truthy JSFalse = False"
| "truthy (JSString s) = (s \<noteq> [])"

definition js_and :: "bool \<Rightarrow> js_value \<Rightarrow> js_value" where
  "js_and b v = (if b then v else JSFalse)"

definition js_or :: "js_value \<Rightarrow> js_value \<Rightarrow> js_value" where
  "js_or v w = (if truthy v then v else w)"

text \<open>\<open>v && (v.includes(s) || v.includes(t))\<close> as a condition.\<close>

fun truthy_and_includes :: "js_value \<Rightarrow> string \<Rightarrow> string \<Rightarrow> bool" where
  "truthy_and_includes JSFalse s t = False"
| "truthy_and_includes (JSString v) s t = (v \<noteq> [] \<and> (str_includes v s \<or> str_includes v t))"

text \<open>The four auto-margin flags of a node.\<close>

record auto_margins =
  hasAutoMarginLeft :: bool
  hasAutoMarginRight :: bool
  hasAutoMarginTop :: bool
  hasAutoMarginBottom :: bool

text \<open>
  Below, a style declaration appears as the function that reads its properties by
  name (\<open>property h decl d\<close> for the declaration \<open>decl\<close> read in state \<open>d\<close>).
\<close>

type_synonym style = "string \<Rightarrow> string"

text \<open>Lines 132 and 133: \<open>computed.display && computed.display.includes("inline")\<close>.\<close>

definition isInline :: "style \<Rightarrow> bool" where
  "isInline computed = (computed ''display'' \<noteq> [] \<and> str_includes (computed ''display'') ''inline'')"

text \<open>Lines 136 to 150, the flags of an inline element.\<close>

definition inline_adjust :: "style \<Rightarrow> style \<Rightarrow> auto_margins \<Rightarrow> auto_margins" where
  "inline_adjust parentStyle computed f =
     (let parentTextAlign = parentStyle ''textAlign'';
          f1 = (if parentTextAlign = ''center''
                then f\<lparr>hasAutoMarginLeft := True, hasAutoMarginRight := True\<rparr>
                else if parentTextAlign = ''right''
                then f\<lparr>hasAutoMarginLeft := True\<rparr>
                else f)
      in if computed ''verticalAlign'' = ''middle''
         then f1\<lparr>hasAutoMarginTop := True, hasAutoMarginBottom := True\<rparr>
         else if computed ''verticalAlign'' = ''bottom''
         then f1\<lparr>hasAutoMarginTop := True, hasAutoMarginBottom := False\<rparr>
         else f1)"

text \<open>Lines 154 to 159, the horizontal signal of a flex parent.\<close>

definition parentJustifyContent :: "style \<Rightarrow> js_value" where
  "parentJustifyContent parentStyle =
     js_and (parentStyle ''display'' = ''flex'')
       (js_or
          (js_and (parentStyle ''flexDirection'' = ''row'')
             (JSString (parentStyle ''justifyContent'')))
          (js_and (parentStyle ''flexDirection'' = ''column'')
             (JSString (parentStyle ''alignItems''))))"

text \<open>Lines 161 to 171.\<close>

definition flex_horizontal :: "js_value \<Rightarrow> auto_margins \<Rightarrow> auto_margins" where
  "flex_horizontal signal f =
     (if signal = JSString ''center''
      then f\<lparr>hasAutoMarginLeft := True, hasAutoMarginRight := True\<rparr>
      else if truthy_and_includes signal ''end'' ''right''
      then f\<lparr>hasAutoMarginLeft := True, hasAutoMarginRight := False\<rparr>
      else f)"

text \<open>Lines 173 to 178, the vertical signal of a flex parent.\<close>

definition parentAlignItems :: "style \<Rightarrow> js_value" where
  "parentAlignItems parentStyle =
     js_and (parentStyle ''display'' = ''flex'')
       (js_or
          (js_and (parentStyle ''flexDirection'' = ''column'')
             (JSString (parentStyle ''justifyContent'')))
          (js_and (parentStyle ''flexDirection'' = ''row'')
             (JSString (parentStyle ''alignItems''))))"

text \<open>Lines 179 to 189.\<close>

definition flex_vertical :: "js_value \<Rightarrow> auto_margins \<Rightarrow> auto_margins" where
  "flex_vertical signal f =
     (if signal = JSString ''center''
      then f\<lparr>hasAutoMarginTop := True, hasAutoMarginBottom := True\<rparr>
      else if truthy_and_includes signal ''end'' ''bottom''
      then f\<lparr>hasAutoMarginTop := True, hasAutoMarginBottom := False\<rparr>
      else f)"

text \<open>Lines 192 to 198, the own alignment of a text node.\<close>

definition text_adjust :: "style \<Rightarrow> auto_margins \<Rightarrow> auto_margins" where
  "text_adjust computed f =
     (if computed ''textAlign'' = ''center''
      then f\<lparr>hasAutoMarginLeft := True, hasAutoMarginRight := True\<rparr>
      else if computed ''textAlign'' = ''right''
      then f\<lparr>hasAutoMarginLeft := True, hasAutoMarginRight := False\<rparr>
      else f)"

text \<open>
  Lines 114 to 199 in the order of the source: the flags as they stand before the
  final resolution, and the node with its annotations.  \<open>margins\<close> is the
  declaration resolved at line 107, read after the assignment of line 112;
  \<open>computed\<close> is the declaration resolved again at line 119.
\<close>

definition flags_and_data ::
  "LayerNode \<Rightarrow> bool \<Rightarrow> bool \<Rightarrow> style \<Rightarrow> style \<Rightarrow> style \<Rightarrow> auto_margins \<times> LayerNode" where
  "flags_and_data child hasFixedWidth hasFixedHeight margins computed parentStyle =
     (let f0 = \<lparr>hasAutoMarginLeft = (margins ''marginLeft'' = ''auto''),
                hasAutoMarginRight = (margins ''marginRight'' = ''auto''),
                hasAutoMarginTop = (margins ''marginTop'' = ''auto''),
                hasAutoMarginBottom = (margins ''marginBottom'' = ''auto'')\<rparr>;
          c1 = (if computed ''position'' \<in> set [''absolute'', ''fixed'']
                then setData child ''position'' (computed ''position'') else child);
          c2 = (if hasFixedHeight then setData c1 ''heightType'' ''fixed'' else c1);
          c3 = (if hasFixedWidth then setData c2 ''widthType'' ''fixed'' else c2);
          f1 = (if isInline computed then inline_adjust parentStyle computed f0 else f0);
          c4 = (if isInline computed then setData c3 ''widthType'' ''shrink'' else c3);
          f2 = flex_horizontal (parentJustifyContent parentStyle) f1;
          f3 = flex_vertical (parentAlignItems parentStyle) f2;
          f4 = (if type child = TEXT then text_adjust computed f3 else f3)
      in (f4, c4))"

text \<open>Lines 201 to 214, the resolution of the flags to a pair of constraints.\<close>

definition resolve_constraints :: "auto_margins \<Rightarrow> constraints_pair" where
  "resolve_constraints f =
     \<lparr>horizontal =
        (if hasAutoMarginLeft f \<and> hasAutoMarginRight f then CENTER
         else if hasAutoMarginLeft f then MAX'
         else SCALE),
      vertical =
        (if hasAutoMarginBottom f \<and> hasAutoMarginTop f then CENTER
         else if hasAutoMarginTop f then MAX'
         else MIN')\<rparr>"

text \<open>Lines 108 to 111: \<open>v && v.trim().endsWith("px")\<close> as a condition.\<close>

definition hasFixedSize :: "string \<Rightarrow> bool" where
  "hasFixedSize v = (v \<noteq> [] \<and> endsWith (trim v) ''px'')"

text \<open>
  Lines 105 to 214, for an element \<open>el\<close> with parent element \<open>parent\<close>.  Line 106
  is the call \<open>el.style.setProperty("display", "none", "!important")\<close>, line 112 the
  assignment \<open>el.style.display = currentDisplay\<close>.  The three calls of the resolver are
  the steps that can fail; a failure leaves the callback at once, with the document
  as it is at that moment.
\<close>

definition constrain_element ::
  "'decl host \<Rightarrow> dom \<Rightarrow> LayerNode \<Rightarrow> dom_node \<Rightarrow> dom_node \<Rightarrow> dom \<times> (error + LayerNode)" where
  "constrain_element h d child el parent =
     (let currentDisplay = style_display d el;
          d1 = setProperty d el ''display'' ''none'' ''!important''
      in (case getComputedStyle h d1 el None of
            Inl e \<Rightarrow> (d1, Inl e)
          | Inr computed \<Rightarrow>
              (let hasFixedWidth = hasFixedSize (property h computed d1 ''width'');
                   hasFixedHeight = hasFixedSize (property h computed d1 ''height'');
                   d2 = set_style_display d1 el currentDisplay
               in (case getComputedStyle h d2 parent None of
                     Inl e \<Rightarrow> (d2, Inl e)
                   | Inr parentStyle \<Rightarrow>
                       (case getComputedStyle h d2 el None of
                          Inl e \<Rightarrow> (d2, Inl e)
                        | Inr computed2 \<Rightarrow>
                            (let (f, c) = flags_and_data child hasFixedWidth hasFixedHeight
                                            (property h computed d2) (property h computed2 d2)
                                            (property h parentStyle d2)
                             in (d2, Inr (c\<lparr>constraints := Some (resolve_constraints f)\<rparr>))))))))"

text \<open>The callback of lines 93 to 223, applied to one node of the layer tree.\<close>

definition constrain :: "'decl host \<Rightarrow> dom \<Rightarrow> LayerNode \<Rightarrow> dom \<times> (error + LayerNode)" where
  "constrain h d child =
     (if type child = SVG
      then (d, Inr (child\<lparr>constraints := Some \<lparr>horizontal = CENTER, vertical = MIN'\<rparr>\<rparr>))
      else case ref child of
             None \<Rightarrow>
               (d, Inr (child\<lparr>constraints := Some \<lparr>horizontal = SCALE, vertical = MIN'\<rparr>\<rparr>))
           | Some r \<Rightarrow>
               (case (if instanceofHTMLElement d r then Some r else parentElement d r) of
                  None \<Rightarrow> (d, Inr child)
                | Some el \<Rightarrow>
                    (case parentElement d el of
                       None \<Rightarrow> (d, Inr child)
                     | Some parent \<Rightarrow> constrain_element h d child el parent)))"

text \<open>
  Modelled from the spec: \<open>traverse\<close>, imported from the helpers for nodes, is the
  tree traversal that visits every node of a layer tree exactly once, in pre-order,
  the root and then its children in their order.  The callback changes the node it
  visits and the document; an error it raises ends the traversal.
\<close>

fun traverse ::
    "(dom \<Rightarrow> LayerNode \<Rightarrow> dom \<times> (error + LayerNode)) \<Rightarrow> dom \<Rightarrow> layer \<Rightarrow> dom \<times> (error + layer)"
  and traverse_each ::
    "(dom \<Rightarrow> LayerNode \<Rightarrow> dom \<times> (error + LayerNode)) \<Rightarrow> dom \<Rightarrow> layer list
       \<Rightarrow> dom \<times> (error + layer list)" where
  "traverse cb d (Layer node children) =
     (case cb d node of
        (d1, Inl e) \<Rightarrow> (d1, Inl e)
      | (d1, Inr node') \<Rightarrow>
          (case traverse_each cb d1 children of
             (d2, Inl e) \<Rightarrow> (d2, Inl e)
           | (d2, Inr children') \<Rightarrow> (d2, Inr (Layer node' children'))))"
| "traverse_each cb d [] = (d, Inr [])"
| "traverse_each cb d (l # ls) =
     (case traverse cb d l of
        (d1, Inl e) \<Rightarrow> (d1, Inl e)
      | (d1, Inr l') \<Rightarrow>
          (case traverse_each cb d1 ls of
             (d2, Inl e) \<Rightarrow> (d2, Inl e)
           | (d2, Inr ls') \<Rightarrow> (d2, Inr (l' # ls'))))"

text \<open>
  \<open>addConstraints\<close>, lines 91 to 225: every root of the forest in turn.  The result
  is the document after the pass and either the error that ended it or the forest
  with its constraints.
\<close>

definition addConstraints :: "'decl host \<Rightarrow> dom \<Rightarrow> layer list \<Rightarrow> dom \<times> (error + layer list)" where
  "addConstraints h d layers = traverse_each (constrain h) d layers"

text \<open>The constraints of every node of a forest, in pre-order.\<close>

fun constraints_of :: "layer \<Rightarrow> constraints_pair option list"
  and constraints_of_each :: "layer list \<Rightarrow> constraints_pair option list" where
  "constraints_of (Layer node children) = constraints node # constraints_of_each children"
| "constraints_of_each [] = []"
| "constraints_of_each (l # ls) = constraints_of l @ constraints_of_each ls"

section \<open>The Style Snapshot Reader: \<open>getAppliedComputedStyles\<close>\<close>

text \<open>The allow-list \<open>list\<close> of lines 26 to 38.\<close>

definition allow_list :: "string list" where
  "allow_list =
     [''opacity'', ''backgroundColor'', ''border'', ''borderTop'', ''borderLeft'',
      ''borderRight'', ''borderBottom'', ''borderRadius'', ''backgroundImage'',
      ''borderColor'', ''boxShadow'']"

text \<open>The table \<open>defaults\<close> of lines 42 to 71, for the resolved text colour \<open>color\<close>.\<close>

definition defaults :: "string \<Rightarrow> (string \<times> string) list" where
  "defaults color =
     [(''transform'', ''none''),
      (''opacity'', ''1''),
      (''borderRadius'', ''0px''),
      (''backgroundImage'', ''none''),
      (''backgroundPosition'', ''0% 0%''),
      (''backgroundSize'', ''auto''),
      (''backgroundColor'', ''rgba(0, 0, 0, 0)''),
      (''backgroundAttachment'', ''scroll''),
      (''border'', ''0px none '' @ color),
      (''borderTop'', ''0px none '' @ color),
      (''borderBottom'', ''0px none '' @ color),
      (''borderLeft'', ''0px none '' @ color),
      (''borderRight'', ''0px none '' @ color),
      (''borderWidth'', ''0px''),
      (''borderColor'', color),
      (''borderStyle'', ''none''),
      (''boxShadow'', ''none''),
      (''fontWeight'', ''400''),
      (''textAlign'', ''start''),
      (''justifyContent'', ''normal''),
      (''alignItems'', ''normal''),
      (''alignSelf'', ''auto''),
      (''flexGrow'', ''0''),
      (''textDecoration'', ''none solid '' @ color),
      (''lineHeight'', ''normal''),
      (''letterSpacing'', ''normal''),
      (''backgroundRepeat'', ''repeat''),
      (''zIndex'', ''auto'')]"

text \<open>
  \<open>pick\<close>, lines 73 to 86: the entries of \<open>object\<close> under the given paths that are
  truthy and differ from the default, as an object with its keys in insertion order.
\<close>

definition pick :: "(string \<times> string) list \<Rightarrow> style \<Rightarrow> string list \<Rightarrow> (string \<times> string) list" where
  "pick dflts object paths =
     foldl (\<lambda>newObject path.
              if object path \<noteq> []
              then (if Some (object path) \<noteq> map_of dflts path
                    then AList.update path (object path) newObject
                    else newObject)
              else newObject)
       [] paths"

definition getAppliedComputedStyles ::
  "'decl host \<Rightarrow> dom \<Rightarrow> dom_node \<Rightarrow> string option \<Rightarrow> error + (string \<times> string) list" where
  "getAppliedComputedStyles h d element pseudo =
     (if \<not> (instanceofHTMLElement d element \<or> instanceofSVGElement d element)
      then Inr []
      else (case getComputedStyle h d element pseudo of
              Inl e \<Rightarrow> Inl e
            | Inr styles \<Rightarrow>
                (let color = property h styles d ''color''
                 in Inr (pick (defaults color) (property h styles d) allow_list))))"

section \<open>The Corner Radius Mapper: \<open>setBorderRadii\<close>\<close>

text \<open>
  The length parser \<open>parseUnits\<close> is a parameter: it returns \<open>null\<close> (\<open>None\<close>) or an
  object of which this code reads the field \<open>value\<close>.
\<close>

record parsed_units =
  units_value :: number

definition setBorderRadii ::
  "(string \<Rightarrow> parsed_units option) \<Rightarrow> style \<Rightarrow> LayerNode \<Rightarrow> LayerNode" where
  "setBorderRadii parseUnits computedStyle rectNode =
     (let n1 = (case parseUnits (computedStyle ''borderTopLeftRadius'') of
                  None \<Rightarrow> rectNode
                | Some u \<Rightarrow> rectNode\<lparr>topLeftRadius := Some (units_value u)\<rparr>);
          n2 = (case parseUnits (computedStyle ''borderTopRightRadius'') of
                  None \<Rightarrow> n1
                | Some u \<Rightarrow> n1\<lparr>topRightRadius := Some (units_value u)\<rparr>);
          n3 = (case parseUnits (computedStyle ''borderBottomRightRadius'') of
                  None \<Rightarrow> n2
                | Some u \<Rightarrow> n2\<lparr>bottomRightRadius := Some (units_value u)\<rparr>);
          n4 = (case parseUnits (computedStyle ''borderBottomLeftRadius'') of
                  None \<Rightarrow> n3
                | Some u \<Rightarrow> n3\<lparr>bottomLeftRadius := Some (units_value u)\<rparr>)
      in n4)"

section \<open>The Border Decomposer\<close>

text \<open>The side of a border, a union of four string literals.\<close>

datatype dir = Top | Left | Right | Bottom

fun dir_str :: "dir \<Rightarrow> string" where
  "dir_str Top = ''top''"
| "dir_str Left = ''left''"
| "dir_str Right = ''right''"
| "dir_str Bottom = ''bottom''"

text \<open>The box of the element, as the caller supplies it.\<close>

record DOMRect =
  rect_top :: number
  rect_left :: number
  rect_right :: number
  rect_bottom :: number
  rect_width :: number
  rect_height :: number

text \<open>\<open>rgb.a || 1\<close>: the alpha when it is truthy, else \<open>1\<close>.\<close>

definition alpha_or_1 :: "number option \<Rightarrow> number" where
  "alpha_or_1 a = (case a of None \<Rightarrow> Num 1 | Some v \<Rightarrow> if truthy_number a then v else Num 1)"

text \<open>The paint both entry points build from the resolved colour.\<close>

definition solid_paint :: "rgba \<Rightarrow> Paint" where
  "solid_paint rgb =
     SOLID \<lparr>color_r = rgb_r rgb, color_g = rgb_g rgb, color_b = rgb_b rgb\<rparr>
       (alpha_or_1 (rgb_a rgb))"

text \<open>
  \<open>addStrokesFromIndividualBorders\<close>, lines 258 to 314.  The colour resolver
  \<open>getRgb\<close> is a parameter, \<open>None\<close> being its \<open>null\<close>.  \<open>layers.push\<close> appends at the
  end.  The new node is the object literal of lines 285 to 309: every field the
  literal does not give is absent.
\<close>

definition addStrokesFromIndividualBorders ::
  "(string \<Rightarrow> rgba option) \<Rightarrow> dir \<Rightarrow> DOMRect \<Rightarrow> style \<Rightarrow> layer list \<Rightarrow> dom_node
     \<Rightarrow> error + layer list" where
  "addStrokesFromIndividualBorders getRgb dir rect computedStyle layers el =
     (case capitalize (dir_str dir) of
        Inl e \<Rightarrow> Inl e
      | Inr cap \<Rightarrow>
          (let computed = computedStyle (''border'' @ cap)
           in if computed \<noteq> []
              then (case border_match computed of
                      None \<Rightarrow> Inr layers
                    | Some (borderWidth, ty, color) \<Rightarrow>
                        if borderWidth \<noteq> [] \<and> borderWidth \<noteq> ''0'' \<and> ty \<noteq> ''none''
                             \<and> color \<noteq> []
                        then (case getRgb color of
                                None \<Rightarrow> Inr layers
                              | Some rgb \<Rightarrow>
                                  (let w = (if dir_str dir \<in> set [''top'', ''bottom'']
                                            then rect_width rect
                                            else parseFloat borderWidth);
                                       h = (if dir_str dir \<in> set [''left'', ''right'']
                                            then rect_height rect
                                            else parseFloat borderWidth)
                                   in Inr (layers @
                                        [Layer
                                           \<lparr>type = RECTANGLE,
                                            ref = Some el,
                                            x_pos = Some
                                              (if dir_str dir = ''left''
                                               then num_sub (rect_left rect) w
                                               else if dir_str dir = ''right''
                                               then rect_right rect
                                               else rect_left rect),
                                            y_pos = Some
                                              (if dir_str dir = ''top''
                                               then num_sub (rect_top rect) h
                                               else if dir_str dir = ''bottom''
                                               then rect_bottom rect
                                               else rect_top rect),
                                            width = Some w,
                                            height = Some h,
                                            constraints = None,
                                            data = None,
                                            fills = Some [solid_paint rgb],
                                            strokes = None,
                                            strokeWeight = None,
                                            topLeftRadius = None,
                                            topRightRadius = None,
                                            bottomRightRadius = None,
                                            bottomLeftRadius = None\<rparr>
                                           []])))
                        else Inr layers)
              else Inr layers))"

text \<open>\<open>addStrokesFromBorder\<close>, lines 316 to 342; it raises nothing.\<close>

definition addStrokesFromBorder ::
  "(string \<Rightarrow> rgba option) \<Rightarrow> style \<Rightarrow> LayerNode \<Rightarrow> LayerNode" where
  "addStrokesFromBorder getRgb computedStyle rectNode =
     (let border = computedStyle ''border''
      in if border \<noteq> []
         then (case border_match border of
                 None \<Rightarrow> rectNode
               | Some (w, ty, color) \<Rightarrow>
                   if w \<noteq> [] \<and> w \<noteq> ''0'' \<and> ty \<noteq> ''none'' \<and> color \<noteq> []
                   then (case getRgb color of
                           None \<Rightarrow> rectNode
                         | Some rgb \<Rightarrow>
                             rectNode\<lparr>strokes := Some [solid_paint rgb],
                                      strokeWeight := Some (Math_round (parseFloat w))\<rparr>)
                   else rectNode)
         else rectNode)"

text \<open>The property name \<open>"border" + capitalize(dir)\<close> of line 271, side by side.\<close>

fun border_property :: "dir \<Rightarrow> string" where
  "border_property Top = ''borderTop''"
| "border_property Left = ''borderLeft''"
| "border_property Right = ''borderRight''"
| "border_property Bottom = ''borderBottom''"

section \<open>Concrete documents, hosts and styles\<close>

text \<open>A style declaration given by its entries.\<close>

definition style_of :: "(string \<times> string) list \<Rightarrow> style" where
  "style_of al name = (case map_of al name of None \<Rightarrow> [] | Some v \<Rightarrow> v)"

text \<open>A node with nothing but its type and its reference.\<close>

definition blank_node :: "node_type \<Rightarrow> dom_node option \<Rightarrow> LayerNode" where
  "blank_node t r =
     \<lparr>type = t, ref = r, x_pos = None, y_pos = None, width = None, height = None,
      constraints = None, data = None, fills = None, strokes = None, strokeWeight = None,
      topLeftRadius = None, topRightRadius = None, bottomRightRadius = None,
      bottomLeftRadius = None\<rparr>"

text \<open>
  A document of three nodes: node 0 is a flex row container packing its items at
  the end, node 1 a block element inside it with the inline style
  \<open>display: block\<close> and centred text, node 2 the text inside node 1.
\<close>

definition demo_dom :: dom where
  "demo_dom =
     \<lparr>instanceofHTMLElement = (\<lambda>n. n = 0 \<or> n = 1),
      instanceofSVGElement = (\<lambda>n. False),
      parentElement = (\<lambda>n. if n = 1 then Some 0 else if n = 2 then Some 1 else None),
      style_display = (\<lambda>n. if n = 1 then ''block'' else [])\<rparr>"

definition demo_styles :: "dom \<Rightarrow> dom_node \<Rightarrow> style" where
  "demo_styles d n =
     (if n = 0
      then style_of [(''display'', ''flex''), (''flexDirection'', ''row''),
                     (''justifyContent'', ''flex-end''), (''alignItems'', ''normal''),
                     (''textAlign'', ''start'')]
      else style_of [(''display'', if style_display d n = ''none'' then ''none'' else ''block''),
                     (''width'', ''100px''), (''height'', ''auto''),
                     (''marginLeft'', ''0px''), (''marginRight'', ''0px''),
                     (''marginTop'', ''0px''), (''marginBottom'', ''0px''),
                     (''position'', ''static''), (''textAlign'', ''center''),
                     (''verticalAlign'', ''baseline'')])"

text \<open>A host with live declarations: a declaration is a handle on its node.\<close>

definition demo_host :: "dom_node host" where
  "demo_host =
     \<lparr>getComputedStyle = (\<lambda>d n pseudo. Inr n),
      property = (\<lambda>n d. demo_styles d n)\<rparr>"


text \<open>A forest: a frame built from node 1 holding the text of node 2, and a node without reference.\<close>

definition demo_layers :: "layer list" where
  "demo_layers =
     [Layer (blank_node FRAME (Some 1)) [Layer (blank_node TEXT (Some 2)) []],
      Layer (blank_node RECTANGLE None) []]"

text \<open>A parent style with a reversed column direction.\<close>

definition reversed_column_style :: style where
  "reversed_column_style =
     style_of [(''display'', ''flex''), (''flexDirection'', ''column-reverse''),
               (''justifyContent'', ''normal''), (''alignItems'', ''center'')]"

definition no_auto_margins :: auto_margins where
  "no_auto_margins =
     \<lparr>hasAutoMarginLeft = False, hasAutoMarginRight = False,
      hasAutoMarginTop = False, hasAutoMarginBottom = False\<rparr>"

text \<open>A host whose element 1 resolves every allow-listed property to its baseline.\<close>

definition baseline_host :: "dom_node host" where
  "baseline_host =
     \<lparr>getComputedStyle = (\<lambda>d n pseudo. Inr n),
      property = (\<lambda>n d. style_of ((''color'', ''rgb(0, 0, 0)'') # defaults ''rgb(0, 0, 0)''))\<rparr>"

text \<open>A colour resolver for three colour strings.\<close>

definition demo_getRgb :: "string \<Rightarrow> rgba option" where
  "demo_getRgb s =
     (if s = ''rgb(255, 0, 0)''
      then Some \<lparr>rgb_r = Num 1, rgb_g = Num 0, rgb_b = Num 0, rgb_a = None\<rparr>
      else if s = ''rgba(0, 0, 0, 0.5)''
      then Some \<lparr>rgb_r = Num 0, rgb_g = Num 0, rgb_b = Num 0, rgb_a = Some (Num (1 / 2))\<rparr>
      else if s = ''rgba(0, 0, 0, 0)''
      then Some \<lparr>rgb_r = Num 0, rgb_g = Num 0, rgb_b = Num 0, rgb_a = Some (Num 0)\<rparr>
      else None)"

definition demo_rect :: DOMRect where
  "demo_rect =
     \<lparr>rect_top = Num 10, rect_left = Num 20, rect_right = Num 120, rect_bottom = Num 60,
      rect_width = Num 100, rect_height = Num 50\<rparr>"

text \<open>An element with a red top border of two pixels and no other border.\<close>

definition top_border_style :: style where
  "top_border_style =
     style_of [(''borderTop'', ''2px solid rgb(255, 0, 0)''),
               (''borderLeft'', ''0px none rgb(0, 0, 0)''),
               (''borderRight'', ''0px none rgb(0, 0, 0)''),
               (''borderBottom'', ''0px none rgb(0, 0, 0)'')]"

text \<open>An element whose border width is written \<open>0.0px\<close>, and one with a transparent border.\<close>

definition zero_width_style :: style where
  "zero_width_style =
     style_of [(''border'', ''0.0px solid rgb(255, 0, 0)''),
               (''borderTop'', ''0.0px solid rgb(255, 0, 0)'')]"

definition transparent_border_style :: style where
  "transparent_border_style =
     style_of [(''border'', ''2px solid rgba(0, 0, 0, 0)''),
               (''borderTop'', ''2px solid rgba(0, 0, 0, 0)'')]"

text \<open>A length parser for two strings, and an element with two rounded corners.\<close>

definition demo_parseUnits :: "string \<Rightarrow> parsed_units option" where
  "demo_parseUnits s =
     (if s = ''4px'' then Some \<lparr>units_value = Num 4\<rparr>
      else if s = ''0px'' then Some \<lparr>units_value = Num 0\<rparr>
      else None)"

definition corner_style :: style where
  "corner_style =
     style_of [(''borderTopLeftRadius'', ''4px''), (''borderTopRightRadius'', ''0px''),
               (''borderBottomRightRadius'', ''50%'')]"

text \<open>What the pass leaves of the forest \<open>demo_layers\<close> under \<open>demo_host\<close>.\<close>

definition frame_result :: LayerNode where
  "frame_result =
     (blank_node FRAME (Some 1))
       \<lparr>constraints := Some \<lparr>horizontal = MAX', vertical = MIN'\<rparr>,
        data := Some [(''widthType'', ''fixed'')]\<rparr>"

definition text_result :: LayerNode where
  "text_result =
     (blank_node TEXT (Some 2))
       \<lparr>constraints := Some \<lparr>horizontal = CENTER, vertical = MIN'\<rparr>,
        data := Some [(''widthType'', ''fixed'')]\<rparr>"

definition rectangle_result :: LayerNode where
  "rectangle_result =
     (blank_node RECTANGLE None)
       \<lparr>constraints := Some \<lparr>horizontal = SCALE, vertical = MIN'\<rparr>\<rparr>"

definition demo_layers_result :: "layer list" where
  "demo_layers_result =
     [Layer frame_result [Layer text_result []], Layer rectangle_result []]"

section \<open>Properties of the Constraint Inferencer\<close>

subsection \<open>One node\<close>

lemma force_hide_ignored: "setProperty d el ''display'' ''none'' ''!important'' = d"
  by (simp add: setProperty_def)

lemma restore_display: "set_style_display d el (style_display d el) = d"
  by (simp add: set_style_display_def)

lemma constrain_element_Inr:
  assumes "constrain_element h d child el parent = (d', Inr child')"
  shows "d' = d \<and>
         (\<exists>computed parentStyle computed2 f c.
            getComputedStyle h (setProperty d el ''display'' ''none'' ''!important'') el None = Inr computed \<and>
            getComputedStyle h d parent None = Inr parentStyle \<and>
            getComputedStyle h d el None = Inr computed2 \<and>
            flags_and_data child
              (hasFixedSize (property h computed (setProperty d el ''display'' ''none'' ''!important'') ''width''))
              (hasFixedSize (property h computed (setProperty d el ''display'' ''none'' ''!important'') ''height''))
              (property h computed d) (property h computed2 d) (property h parentStyle d) = (f, c) \<and>
            child' = c\<lparr>constraints := Some (resolve_constraints f)\<rparr>)"
  using assms
  by (auto simp: constrain_element_def Let_def force_hide_ignored restore_display split: sum.splits prod.splits)

lemma constrain_element_ok:
  assumes "getComputedStyle h (setProperty d el ''display'' ''none'' ''!important'') el None = Inr computed"
      and "getComputedStyle h d parent None = Inr parentStyle"
      and "getComputedStyle h d el None = Inr computed2"
  shows "constrain_element h d child el parent =
           (d, Inr ((snd (flags_and_data child
              (hasFixedSize (property h computed (setProperty d el ''display'' ''none'' ''!important'') ''width''))
              (hasFixedSize (property h computed (setProperty d el ''display'' ''none'' ''!important'') ''height''))
              (property h computed d) (property h computed2 d) (property h parentStyle d)))
              \<lparr>constraints := Some (resolve_constraints (fst (flags_and_data child
              (hasFixedSize (property h computed (setProperty d el ''display'' ''none'' ''!important'') ''width''))
              (hasFixedSize (property h computed (setProperty d el ''display'' ''none'' ''!important'') ''height''))
              (property h computed d) (property h computed2 d) (property h parentStyle d))))\<rparr>))"
  using assms
  by (simp add: constrain_element_def Let_def force_hide_ignored restore_display split: prod.splits)

lemma setData_type [simp]: "type (setData n k v) = type n"
  by (simp add: setData_def)

lemma setData_ref [simp]: "ref (setData n k v) = ref n"
  by (simp add: setData_def)

lemma setData_constraints [simp]: "constraints (setData n k v) = constraints n"
  by (simp add: setData_def)

lemma flags_and_data_type:
  "type (snd (flags_and_data child a b m c p)) = type child"
  by (simp add: flags_and_data_def Let_def)

lemma flags_and_data_ref:
  "ref (snd (flags_and_data child a b m c p)) = ref child"
  by (simp add: flags_and_data_def Let_def)

lemma flags_and_data_fst:
  "type child2 = type child \<Longrightarrow>
   fst (flags_and_data child2 a2 b2 m c p) = fst (flags_and_data child a b m c p)"
  by (simp add: flags_and_data_def Let_def)


lemma constrain_dom:
  assumes "constrain h d n = (d', Inr n')"
  shows "d' = d"
  using assms
  by (auto simp: constrain_def split: if_splits option.splits dest: constrain_element_Inr)

lemma constrain_again:
  assumes "constrain h d n = (d', Inr n')"
  shows "\<exists>n''. constrain h d n' = (d, Inr n'') \<and> constraints n'' = constraints n'"
proof (cases "type n = SVG")
  case True
  with assms show ?thesis by (auto simp: constrain_def)
next
  case notsvg: False
  show ?thesis
  proof (cases "ref n")
    case None
    with notsvg assms show ?thesis by (auto simp: constrain_def)
  next
    case (Some r)
    show ?thesis
    proof (cases "if instanceofHTMLElement d r then Some r else parentElement d r")
      case None
      with notsvg Some assms show ?thesis by (auto simp: constrain_def)
    next
      case el: (Some el)
      show ?thesis
      proof (cases "parentElement d el")
        case None
        with notsvg Some el assms show ?thesis by (auto simp: constrain_def)
      next
        case par: (Some parent)
        from notsvg Some el par assms
        have ce: "constrain_element h d n el parent = (d', Inr n')"
          by (simp add: constrain_def)
        from constrain_element_Inr [OF ce] obtain computed parentStyle computed2 f c where
          g1: "getComputedStyle h (setProperty d el ''display'' ''none'' ''!important'') el None = Inr computed" and
          g2: "getComputedStyle h d parent None = Inr parentStyle" and
          g3: "getComputedStyle h d el None = Inr computed2" and
          fd: "flags_and_data n
              (hasFixedSize (property h computed (setProperty d el ''display'' ''none'' ''!important'') ''width''))
              (hasFixedSize (property h computed (setProperty d el ''display'' ''none'' ''!important'') ''height''))
              (property h computed d) (property h computed2 d) (property h parentStyle d) = (f, c)" and
          n': "n' = c\<lparr>constraints := Some (resolve_constraints f)\<rparr>"
          by blast
        from fd have c: "type c = type n" "ref c = ref n"
          using flags_and_data_type [of n] flags_and_data_ref [of n] by (metis snd_conv)+
        have ty: "type n' = type n" and rf: "ref n' = ref n"
          using c n' by simp_all
        have ff: "fst (flags_and_data n'
              (hasFixedSize (property h computed (setProperty d el ''display'' ''none'' ''!important'') ''width''))
              (hasFixedSize (property h computed (setProperty d el ''display'' ''none'' ''!important'') ''height''))
              (property h computed d) (property h computed2 d) (property h parentStyle d)) = f"
          using flags_and_data_fst [OF ty] fd by (metis fst_conv)
        have "constrain h d n' = constrain_element h d n' el parent"
          using notsvg Some el par ty rf by (simp add: constrain_def)
        also note constrain_element_ok [OF g1 g2 g3, of n']
        finally show ?thesis
          using ff n' by simp
      qed
    qed
  qed
qed

lemma traverse_each_again:
  assumes IH: "\<And>l d d' l'. l \<in> set ls \<Longrightarrow> traverse (constrain h) d l = (d', Inr l') \<Longrightarrow>
                 d' = d \<and> (\<exists>l''. traverse (constrain h) d l' = (d, Inr l'') \<and>
                            constraints_of l'' = constraints_of l')"
      and "traverse_each (constrain h) d ls = (d', Inr ls')"
  shows "d' = d \<and> (\<exists>ls''. traverse_each (constrain h) d ls' = (d, Inr ls'') \<and>
                      constraints_of_each ls'' = constraints_of_each ls')"
  using assms
proof (induction ls arbitrary: d d' ls')
  case Nil
  then show ?case by auto
next
  case (Cons l ls)
  from Cons.prems(2) obtain d1 l1 where
    t1: "traverse (constrain h) d l = (d1, Inr l1)"
    by (auto split: prod.splits sum.splits)
  with Cons.prems(2) obtain ls1 where
    t2: "traverse_each (constrain h) d1 ls = (d', Inr ls1)" and ls': "ls' = l1 # ls1"
    by (auto split: prod.splits sum.splits)
  from Cons.prems(1) [OF _ t1] have d1: "d1 = d" and
    "\<exists>l''. traverse (constrain h) d l1 = (d, Inr l'') \<and> constraints_of l'' = constraints_of l1"
    by auto
  then obtain l2 where l2: "traverse (constrain h) d l1 = (d, Inr l2)"
    "constraints_of l2 = constraints_of l1" by blast
  have IH': "d' = d \<and> (\<exists>l''. traverse (constrain h) d l' = (d, Inr l'') \<and>
                            constraints_of l'' = constraints_of l')"
    if "la \<in> set ls" "traverse (constrain h) d la = (d', Inr l')" for la d d' l'
    using Cons.prems(1) [of la d d' l'] that by simp
  have "d' = d1 \<and> (\<exists>ls''. traverse_each (constrain h) d1 ls1 = (d1, Inr ls'') \<and>
                      constraints_of_each ls'' = constraints_of_each ls1)"
    by (rule Cons.IH [OF IH' t2])
  then obtain ls2 where "d' = d" and ls2: "traverse_each (constrain h) d ls1 = (d, Inr ls2)"
    "constraints_of_each ls2 = constraints_of_each ls1"
    using d1 by blast
  with l2 ls' show ?case by simp
qed

lemma traverse_again:
  "traverse (constrain h) d l = (d', Inr l') \<Longrightarrow>
     d' = d \<and> (\<exists>l''. traverse (constrain h) d l' = (d, Inr l'') \<and>
                constraints_of l'' = constraints_of l')"
proof (induction l arbitrary: d d' l')
  case (Layer node children)
  from Layer.prems obtain d1 n1 where
    c1: "constrain h d node = (d1, Inr n1)"
    by (auto split: prod.splits sum.splits)
  with Layer.prems obtain cs1 where
    t2: "traverse_each (constrain h) d1 children = (d', Inr cs1)" and l': "l' = Layer n1 cs1"
    by (auto split: prod.splits sum.splits)
  have d1: "d1 = d" using constrain_dom [OF c1] .
  from constrain_again [OF c1] obtain n2 where
    n2: "constrain h d n1 = (d, Inr n2)" "constraints n2 = constraints n1" by blast
  have "d' = d1 \<and> (\<exists>ls''. traverse_each (constrain h) d1 cs1 = (d1, Inr ls'') \<and>
                      constraints_of_each ls'' = constraints_of_each cs1)"
    by (rule traverse_each_again [OF _ t2]) (use Layer.IH in blast)
  then obtain cs2 where "d' = d" and cs2: "traverse_each (constrain h) d cs1 = (d, Inr cs2)"
    "constraints_of_each cs2 = constraints_of_each cs1"
    using d1 by blast
  with n2 l' show ?case by simp
qed

lemma addConstraints_again:
  assumes "addConstraints h d layers = (d1, Inr layers1)"
  shows "d1 = d \<and> (\<exists>layers2. addConstraints h d1 layers1 = (d1, Inr layers2) \<and>
             constraints_of_each layers2 = constraints_of_each layers1)"
proof -
  have "d1 = d \<and> (\<exists>ls''. traverse_each (constrain h) d layers1 = (d, Inr ls'') \<and>
                      constraints_of_each ls'' = constraints_of_each layers1)"
    by (rule traverse_each_again [OF _ assms [unfolded addConstraints_def]])
       (use traverse_again in blast)
  then show ?thesis by (auto simp: addConstraints_def)
qed


lemmas demo_eval =
  flags_and_data_def demo_host_def demo_styles_def style_of_def force_hide_ignored
  set_style_display_def demo_dom_def blank_node_def hasFixedSize_def trim_def endsWith_def
  is_space_def isInline_def startsWith_def parentJustifyContent_def parentAlignItems_def
  js_and_def js_or_def flex_horizontal_def flex_vertical_def resolve_constraints_def
  text_adjust_def inline_adjust_def setData_def Let_def

lemma demo_resolves: "getComputedStyle demo_host d n p = Inr n"
  by (simp add: demo_host_def)

lemma demo_constrain_frame:
  "constrain demo_host demo_dom (blank_node FRAME (Some 1)) = (demo_dom, Inr frame_result)"
proof -
  have "constrain demo_host demo_dom (blank_node FRAME (Some 1)) =
        constrain_element demo_host demo_dom (blank_node FRAME (Some 1)) 1 0"
    by (simp add: constrain_def demo_dom_def blank_node_def)
  also have "\<dots> = (demo_dom, Inr frame_result)"
    unfolding constrain_element_ok [OF demo_resolves demo_resolves demo_resolves]
    by (simp add: frame_result_def demo_eval)
  finally show ?thesis .
qed

lemma demo_constrain_text:
  "constrain demo_host demo_dom (blank_node TEXT (Some 2)) = (demo_dom, Inr text_result)"
proof -
  have "constrain demo_host demo_dom (blank_node TEXT (Some 2)) =
        constrain_element demo_host demo_dom (blank_node TEXT (Some 2)) 1 0"
    by (simp add: constrain_def demo_dom_def blank_node_def)
  also have "\<dots> = (demo_dom, Inr text_result)"
    unfolding constrain_element_ok [OF demo_resolves demo_resolves demo_resolves]
    by (simp add: text_result_def demo_eval)
  finally show ?thesis .
qed

lemma demo_constrain_rectangle:
  "constrain demo_host d (blank_node RECTANGLE None) = (d, Inr rectangle_result)"
  by (simp add: constrain_def blank_node_def rectangle_result_def)

lemma demo_run:
  "addConstraints demo_host demo_dom demo_layers = (demo_dom, Inr demo_layers_result)"
  by (simp add: addConstraints_def demo_layers_def demo_layers_result_def
      demo_constrain_frame demo_constrain_text demo_constrain_rectangle del: One_nat_def)







subsection \<open>The fixed-size probe and the inline display\<close>



subsection \<open>The flex-parent adjustment\<close>

lemma parentJustifyContent_flex:
  assumes "parentStyle ''display'' = ''flex''"
  shows "parentJustifyContent parentStyle =
           (if parentStyle ''flexDirection'' = ''row'' \<and> parentStyle ''justifyContent'' \<noteq> []
            then JSString (parentStyle ''justifyContent'')
            else if parentStyle ''flexDirection'' = ''column''
            then JSString (parentStyle ''alignItems'')
            else JSFalse)"
  using assms by (simp add: parentJustifyContent_def js_and_def js_or_def)

lemma flex_vertical_left: "hasAutoMarginLeft (flex_vertical s f) = hasAutoMarginLeft f"
  by (simp add: flex_vertical_def)

lemma flex_vertical_right: "hasAutoMarginRight (flex_vertical s f) = hasAutoMarginRight f"
  by (simp add: flex_vertical_def)

lemma flags_signal_center:
  assumes "parentJustifyContent parentStyle = JSString ''center''"
      and "\<not> (type child = TEXT \<and> own ''textAlign'' = ''right'')"
  shows "hasAutoMarginLeft (fst (flags_and_data child a b m own parentStyle)) \<and>
         hasAutoMarginRight (fst (flags_and_data child a b m own parentStyle))"
  using assms
  by (simp add: flags_and_data_def Let_def flex_horizontal_def flex_vertical_left
      flex_vertical_right text_adjust_def)

lemma flags_signal_end:
  assumes "parentJustifyContent parentStyle = JSString s"
      and "s \<noteq> ''center''"
      and "str_includes s ''end'' \<or> str_includes s ''right''"
      and "\<not> (type child = TEXT \<and> own ''textAlign'' = ''center'')"
  shows "hasAutoMarginLeft (fst (flags_and_data child a b m own parentStyle)) \<and>
         \<not> hasAutoMarginRight (fst (flags_and_data child a b m own parentStyle))"
proof -
  from assms(3) have "s \<noteq> []" by auto
  with assms show ?thesis
    by (simp add: flags_and_data_def Let_def flex_horizontal_def flex_vertical_left
        flex_vertical_right text_adjust_def)
qed

lemma flags_no_signal:
  assumes "parentStyle ''flexDirection'' \<noteq> ''row''"
      and "parentStyle ''flexDirection'' \<noteq> ''column''"
  shows "hasAutoMarginLeft (fst (flags_and_data child a b m own parentStyle)) =
           hasAutoMarginLeft
             (fst (flags_and_data child a b m own (parentStyle(''display'' := [])))) \<and>
         hasAutoMarginRight (fst (flags_and_data child a b m own parentStyle)) =
           hasAutoMarginRight
             (fst (flags_and_data child a b m own (parentStyle(''display'' := []))))"
  using assms
  by (simp add: flags_and_data_def Let_def parentJustifyContent_def js_and_def js_or_def
      flex_horizontal_def flex_vertical_left flex_vertical_right text_adjust_def
      inline_adjust_def)

lemma flags_text_center:
  assumes "type child = TEXT" and "own ''textAlign'' = ''center''"
  shows "hasAutoMarginLeft (fst (flags_and_data child a b m own parentStyle)) \<and>
         hasAutoMarginRight (fst (flags_and_data child a b m own parentStyle))"
  using assms by (simp add: flags_and_data_def Let_def text_adjust_def)

lemma flags_text_right:
  assumes "type child = TEXT" and "own ''textAlign'' = ''right''"
  shows "hasAutoMarginLeft (fst (flags_and_data child a b m own parentStyle)) \<and>
         \<not> hasAutoMarginRight (fst (flags_and_data child a b m own parentStyle))"
  using assms by (simp add: flags_and_data_def Let_def text_adjust_def)

text \<open>
  C2 (as amended).  For every node that is not an SVG node, whose reference gives an
  element with a parent element that resolves to \<open>display: flex\<close>, the style
  resolutions succeeding: the pass returns for the node, its horizontal constraint
  \<open>hz\<close> is the resolution of the final flags \<open>f\<close>, and the horizontal signal is the
  parent's \<open>justify-content\<close> when its \<open>flex-direction\<close> is \<open>row\<close> (and that value is
  not empty), the parent's \<open>align-items\<close> when its \<open>flex-direction\<close> is \<open>column\<close>, and
  \<open>false\<close> for every other direction; in that last case the horizontal flags are the
  ones the node has under a parent that is no flex container (\<open>f0\<close>).  With the signal
  \<open>center\<close> both horizontal flags are set and the node resolves to \<open>CENTER\<close>, unless
  it is a text node whose own \<open>text-align\<close> is \<open>right\<close>; with a signal other than
  \<open>center\<close> that contains \<open>end\<close> or \<open>right\<close> the left flag is set, the right one is
  not, and the node resolves to \<open>MAX\<close>, unless it is a text node whose own
  \<open>text-align\<close> is \<open>center\<close>.  A text node whose own \<open>text-align\<close> is \<open>center\<close>
  resolves to \<open>CENTER\<close>, one whose own \<open>text-align\<close> is \<open>right\<close> to \<open>MAX\<close>.  In
  particular a child of a flex row parent with \<open>justify-content: flex-end\<close> resolves
  to horizontal \<open>MAX\<close>, unless it is such a centred text node.
\<close>

theorem flex_parent_adjustment:
  assumes "type child \<noteq> SVG"
      and "ref child = Some r"
      and "(if instanceofHTMLElement d r then Some r else parentElement d r) = Some el"
      and "parentElement d el = Some parent"
      and "getComputedStyle h (setProperty d el ''display'' ''none'' ''!important'') el None =
             Inr computed"
      and "getComputedStyle h d parent None = Inr ps"
      and "getComputedStyle h d el None = Inr recomputed"
      and "property h ps d ''display'' = ''flex''"
      and "parentStyle = property h ps d"
      and "own = property h recomputed d"
      and "f = fst (flags_and_data child
             (hasFixedSize (property h computed
                (setProperty d el ''display'' ''none'' ''!important'') ''width''))
             (hasFixedSize (property h computed
                (setProperty d el ''display'' ''none'' ''!important'') ''height''))
             (property h computed d) own parentStyle)"
      and "f0 = fst (flags_and_data child
             (hasFixedSize (property h computed
                (setProperty d el ''display'' ''none'' ''!important'') ''width''))
             (hasFixedSize (property h computed
                (setProperty d el ''display'' ''none'' ''!important'') ''height''))
             (property h computed d) own (parentStyle(''display'' := [])))"
  shows "\<exists>child' hz vt.
           constrain h d child = (d, Inr child') \<and>
           constraints child' = Some \<lparr>horizontal = hz, vertical = vt\<rparr> \<and>
           hz = (if hasAutoMarginLeft f \<and> hasAutoMarginRight f then CENTER
                 else if hasAutoMarginLeft f then MAX'
                 else SCALE) \<and>
           parentJustifyContent parentStyle =
             (if parentStyle ''flexDirection'' = ''row'' \<and> parentStyle ''justifyContent'' \<noteq> []
              then JSString (parentStyle ''justifyContent'')
              else if parentStyle ''flexDirection'' = ''column''
              then JSString (parentStyle ''alignItems'')
              else JSFalse) \<and>
           (parentJustifyContent parentStyle = JSString ''center'' \<and>
            \<not> (type child = TEXT \<and> own ''textAlign'' = ''right'') \<longrightarrow>
              hasAutoMarginLeft f \<and> hasAutoMarginRight f \<and> hz = CENTER) \<and>
           (\<forall>s. parentJustifyContent parentStyle = JSString s \<and> s \<noteq> ''center'' \<and>
                (str_includes s ''end'' \<or> str_includes s ''right'') \<and>
                \<not> (type child = TEXT \<and> own ''textAlign'' = ''center'') \<longrightarrow>
              hasAutoMarginLeft f \<and> \<not> hasAutoMarginRight f \<and> hz = MAX') \<and>
           (parentStyle ''flexDirection'' \<noteq> ''row'' \<and>
            parentStyle ''flexDirection'' \<noteq> ''column'' \<longrightarrow>
              hasAutoMarginLeft f = hasAutoMarginLeft f0 \<and>
              hasAutoMarginRight f = hasAutoMarginRight f0) \<and>
           (type child = TEXT \<and> own ''textAlign'' = ''center'' \<longrightarrow> hz = CENTER) \<and>
           (type child = TEXT \<and> own ''textAlign'' = ''right'' \<longrightarrow> hz = MAX') \<and>
           (parentStyle ''flexDirection'' = ''row'' \<and>
            parentStyle ''justifyContent'' = ''flex-end'' \<and>
            \<not> (type child = TEXT \<and> own ''textAlign'' = ''center'') \<longrightarrow>
              hz = MAX')"
proof -
  let ?a = "hasFixedSize (property h computed
              (setProperty d el ''display'' ''none'' ''!important'') ''width'')"
  let ?b = "hasFixedSize (property h computed
              (setProperty d el ''display'' ''none'' ''!important'') ''height'')"
  let ?m = "property h computed d"
  let ?c = "snd (flags_and_data child ?a ?b ?m own parentStyle)"
  let ?child' = "?c\<lparr>constraints := Some (resolve_constraints f)\<rparr>"
  let ?hz = "if hasAutoMarginLeft f \<and> hasAutoMarginRight f then CENTER
             else if hasAutoMarginLeft f then MAX' else SCALE"
  let ?vt = "if hasAutoMarginBottom f \<and> hasAutoMarginTop f then CENTER
             else if hasAutoMarginTop f then MAX' else MIN'"
  have f: "f = fst (flags_and_data child ?a ?b ?m own parentStyle)"
    using assms(11) .
  have f0: "f0 = fst (flags_and_data child ?a ?b ?m own (parentStyle(''display'' := [])))"
    using assms(12) .
  have flex: "parentStyle ''display'' = ''flex''"
    using assms(8,9) by simp
  have "constrain h d child = constrain_element h d child el parent"
    using assms(1-4) by (simp add: constrain_def)
  then have run: "constrain h d child = (d, Inr ?child')"
    by (simp add: constrain_element_ok [OF assms(5-7)] assms(9,10) f)
  have cs: "constraints ?child' = Some \<lparr>horizontal = ?hz, vertical = ?vt\<rparr>"
    by (simp add: resolve_constraints_def)
  have sig: "parentJustifyContent parentStyle =
             (if parentStyle ''flexDirection'' = ''row'' \<and> parentStyle ''justifyContent'' \<noteq> []
              then JSString (parentStyle ''justifyContent'')
              else if parentStyle ''flexDirection'' = ''column''
              then JSString (parentStyle ''alignItems'')
              else JSFalse)"
    using flex by (rule parentJustifyContent_flex)
  have center: "hasAutoMarginLeft f \<and> hasAutoMarginRight f \<and> ?hz = CENTER"
    if "parentJustifyContent parentStyle = JSString ''center'' \<and>
        \<not> (type child = TEXT \<and> own ''textAlign'' = ''right'')"
    using flags_signal_center [of parentStyle child own ?a ?b ?m] that f by simp
  have ends: "hasAutoMarginLeft f \<and> \<not> hasAutoMarginRight f \<and> ?hz = MAX'"
    if "parentJustifyContent parentStyle = JSString s \<and> s \<noteq> ''center'' \<and>
        (str_includes s ''end'' \<or> str_includes s ''right'') \<and>
        \<not> (type child = TEXT \<and> own ''textAlign'' = ''center'')" for s
    using flags_signal_end [of parentStyle s child own ?a ?b ?m] that f by simp
  have nosig: "hasAutoMarginLeft f = hasAutoMarginLeft f0 \<and>
               hasAutoMarginRight f = hasAutoMarginRight f0"
    if "parentStyle ''flexDirection'' \<noteq> ''row'' \<and> parentStyle ''flexDirection'' \<noteq> ''column''"
    using flags_no_signal [of parentStyle child ?a ?b ?m own] that f f0 by simp
  have tcenter: "?hz = CENTER" if "type child = TEXT \<and> own ''textAlign'' = ''center''"
    using flags_text_center [of child own ?a ?b ?m parentStyle] that f by simp
  have tright: "?hz = MAX'" if "type child = TEXT \<and> own ''textAlign'' = ''right''"
    using flags_text_right [of child own ?a ?b ?m parentStyle] that f by simp
  have scenario: "?hz = MAX'"
    if "parentStyle ''flexDirection'' = ''row'' \<and>
        parentStyle ''justifyContent'' = ''flex-end'' \<and>
        \<not> (type child = TEXT \<and> own ''textAlign'' = ''center'')"
  proof -
    from that sig have "parentJustifyContent parentStyle = JSString ''flex-end''"
      by simp
    moreover have "str_includes ''flex-end'' ''end''"
      by (simp add: startsWith_def)
    ultimately show ?thesis
      using ends [of "''flex-end''"] that by simp
  qed
  show ?thesis
    using run cs sig center ends nosig tcenter tright scenario by blast
qed

text \<open>
  The frame of element 1 in the demonstration document: its parent is a flex row
  with \<open>justify-content: flex-end\<close>, the signal is that value, and the frame resolves
  to horizontal \<open>MAX\<close>.
\<close>

theorem flex_parent_adjustment_witness:
  "parentJustifyContent (demo_styles demo_dom 0) = JSString ''flex-end'' \<and>
   (\<exists>child' vt.
      constrain demo_host demo_dom (blank_node FRAME (Some 1)) = (demo_dom, Inr child') \<and>
      constraints child' = Some \<lparr>horizontal = MAX', vertical = vt\<rparr>)"
proof -
  have sig: "parentJustifyContent (demo_styles demo_dom 0) = JSString ''flex-end''"
    by (simp add: demo_styles_def style_of_def parentJustifyContent_def js_and_def js_or_def)
  have row: "demo_styles demo_dom 0 ''flexDirection'' = ''row'' \<and>
             demo_styles demo_dom 0 ''justifyContent'' = ''flex-end'' \<and>
             \<not> (type (blank_node FRAME (Some 1)) = TEXT \<and>
                demo_styles demo_dom 1 ''textAlign'' = ''center'')"
    by (simp add: demo_styles_def style_of_def blank_node_def)
  have h1: "type (blank_node FRAME (Some 1)) \<noteq> SVG"
    by (simp add: blank_node_def)
  have h2: "ref (blank_node FRAME (Some 1)) = Some 1"
    by (simp add: blank_node_def)
  have h3: "(if instanceofHTMLElement demo_dom 1 then Some 1 else parentElement demo_dom 1) =
              Some 1"
    by (simp add: demo_dom_def)
  have h4: "parentElement demo_dom 1 = Some 0"
    by (simp add: demo_dom_def)
  have h8: "property demo_host 0 demo_dom ''display'' = ''flex''"
    by (simp add: demo_host_def demo_styles_def style_of_def)
  have h9: "demo_styles demo_dom 0 = property demo_host 0 demo_dom"
    by (simp add: demo_host_def)
  have h10: "demo_styles demo_dom 1 = property demo_host 1 demo_dom"
    by (simp add: demo_host_def)
  from flex_parent_adjustment
         [OF h1 h2 h3 h4 demo_resolves demo_resolves demo_resolves h8 h9 h10 refl refl]
  obtain child' hz vt where
    "constrain demo_host demo_dom (blank_node FRAME (Some 1)) = (demo_dom, Inr child')"
    "constraints child' = Some \<lparr>horizontal = hz, vertical = vt\<rparr>"
    "demo_styles demo_dom 0 ''flexDirection'' = ''row'' \<and>
     demo_styles demo_dom 0 ''justifyContent'' = ''flex-end'' \<and>
     \<not> (type (blank_node FRAME (Some 1)) = TEXT \<and>
        demo_styles demo_dom 1 ''textAlign'' = ''center'') \<longrightarrow> hz = MAX'"
    by blast
  with row sig show ?thesis by blast
qed

text \<open>
  C2 as stated fails three times.  A flex parent with \<open>flex-direction: column-reverse\<close>
  and \<open>align-items: center\<close> gives no signal at all, not its \<open>align-items\<close>, and the
  flags stay as they were.  The text node of element 1, a child of the flex row
  parent with \<open>justify-content: flex-end\<close> and no auto margin of its own, resolves
  to horizontal \<open>CENTER\<close>, because its own \<open>text-align\<close> is \<open>center\<close>.  And an SVG
  node built from element 1, a child of the same parent, gets \<open>CENTER\<close> without any
  look at the parent.
\<close>

theorem flex_parent_adjustment_counterexample:
  "reversed_column_style ''display'' = ''flex'' \<and>
   reversed_column_style ''flexDirection'' \<noteq> ''row'' \<and>
   reversed_column_style ''alignItems'' = ''center'' \<and>
   parentJustifyContent reversed_column_style \<noteq> JSString (reversed_column_style ''alignItems'') \<and>
   flex_horizontal (parentJustifyContent reversed_column_style) no_auto_margins = no_auto_margins \<and>
   demo_styles demo_dom 0 ''display'' = ''flex'' \<and>
   demo_styles demo_dom 0 ''flexDirection'' = ''row'' \<and>
   demo_styles demo_dom 0 ''justifyContent'' = ''flex-end'' \<and>
   demo_styles demo_dom 1 ''marginLeft'' \<noteq> ''auto'' \<and>
   demo_styles demo_dom 1 ''marginRight'' \<noteq> ''auto'' \<and>
   constrain demo_host demo_dom (blank_node TEXT (Some 2)) = (demo_dom, Inr text_result) \<and>
   constraints text_result = Some \<lparr>horizontal = CENTER, vertical = MIN'\<rparr> \<and>
   parentElement demo_dom 1 = Some 0 \<and>
   constrain demo_host demo_dom (blank_node SVG (Some 1)) =
     (demo_dom,
      Inr ((blank_node SVG (Some 1))
             \<lparr>constraints := Some \<lparr>horizontal = CENTER, vertical = MIN'\<rparr>\<rparr>))"
proof -
  have signal:
    "reversed_column_style ''display'' = ''flex'' \<and>
     reversed_column_style ''flexDirection'' \<noteq> ''row'' \<and>
     reversed_column_style ''alignItems'' = ''center'' \<and>
     parentJustifyContent reversed_column_style \<noteq>
       JSString (reversed_column_style ''alignItems'') \<and>
     flex_horizontal (parentJustifyContent reversed_column_style) no_auto_margins =
       no_auto_margins"
    by (simp add: reversed_column_style_def style_of_def parentJustifyContent_def
        js_and_def js_or_def flex_horizontal_def no_auto_margins_def)
  have styles:
    "demo_styles demo_dom 0 ''display'' = ''flex'' \<and>
     demo_styles demo_dom 0 ''flexDirection'' = ''row'' \<and>
     demo_styles demo_dom 0 ''justifyContent'' = ''flex-end'' \<and>
     demo_styles demo_dom 1 ''marginLeft'' \<noteq> ''auto'' \<and>
     demo_styles demo_dom 1 ''marginRight'' \<noteq> ''auto''"
    by (simp add: demo_styles_def style_of_def)
  have centred: "constraints text_result = Some \<lparr>horizontal = CENTER, vertical = MIN'\<rparr>"
    by (simp add: text_result_def)
  have parent: "parentElement demo_dom 1 = Some 0"
    by (simp add: demo_dom_def)
  have svg: "constrain demo_host demo_dom (blank_node SVG (Some 1)) =
     (demo_dom,
      Inr ((blank_node SVG (Some 1))
             \<lparr>constraints := Some \<lparr>horizontal = CENTER, vertical = MIN'\<rparr>\<rparr>))"
    by (simp add: constrain_def blank_node_def)
  from signal styles demo_constrain_text centred parent svg show ?thesis
    by (intro conjI) blast+
qed

subsection \<open>The final resolution\<close>

text \<open>
  C3.  For every node that reaches the final resolution (it is not an SVG node, its
  reference gives an element with a parent element, and the three style resolutions
  succeed), with \<open>f\<close> the flags as they stand after the text-alignment step: the pass
  returns, and the horizontal constraint is \<open>CENTER\<close> if the left and right flags are
  both set, \<open>MAX\<close> if only the left one is, and \<open>SCALE\<close> otherwise (also when only
  the right one is set); the vertical constraint is \<open>CENTER\<close> if the top and bottom
  flags are both set, \<open>MAX\<close> if only the top one is, and \<open>MIN\<close> otherwise.
\<close>

theorem final_resolution:
  assumes "type child \<noteq> SVG"
      and "ref child = Some r"
      and "(if instanceofHTMLElement d r then Some r else parentElement d r) = Some el"
      and "parentElement d el = Some parent"
      and "getComputedStyle h (setProperty d el ''display'' ''none'' ''!important'') el None =
             Inr computed"
      and "getComputedStyle h d parent None = Inr parentStyle"
      and "getComputedStyle h d el None = Inr computed2"
      and "fst (flags_and_data child
             (hasFixedSize (property h computed (setProperty d el ''display'' ''none'' ''!important'') ''width''))
             (hasFixedSize (property h computed (setProperty d el ''display'' ''none'' ''!important'') ''height''))
             (property h computed d) (property h computed2 d) (property h parentStyle d)) = f"
  shows "\<exists>child'. constrain h d child = (d, Inr child') \<and>
           constraints child' =
             Some \<lparr>horizontal =
                     (if hasAutoMarginLeft f \<and> hasAutoMarginRight f then CENTER
                      else if hasAutoMarginLeft f then MAX'
                      else SCALE),
                   vertical =
                     (if hasAutoMarginTop f \<and> hasAutoMarginBottom f then CENTER
                      else if hasAutoMarginTop f then MAX'
                      else MIN')\<rparr>"
proof -
  have "constrain h d child = constrain_element h d child el parent"
    using assms(1-4) by (simp add: constrain_def)
  then show ?thesis
    using assms(8)
    by (auto simp: constrain_element_ok [OF assms(5-7)] resolve_constraints_def)
qed

text \<open>The frame of element 1: left flag only, so \<open>MAX\<close> and \<open>MIN\<close>.\<close>

theorem final_resolution_witness:
  "\<exists>child'. constrain demo_host demo_dom (blank_node FRAME (Some 1)) = (demo_dom, Inr child') \<and>
     constraints child' = Some \<lparr>horizontal = MAX', vertical = MIN'\<rparr>"
  using final_resolution [of "blank_node FRAME (Some 1)" 1 demo_dom 1 0 demo_host 1 0 1
      "\<lparr>hasAutoMarginLeft = True, hasAutoMarginRight = False,
        hasAutoMarginTop = False, hasAutoMarginBottom = False\<rparr>"]
  by (simp add: demo_eval)

subsection \<open>Idempotence\<close>

text \<open>
  C7.  When a pass over a forest has succeeded, a second pass over its result, with
  the same resolver (every element resolves as before), succeeds as well and gives
  every node the constraints the first pass gave it.
\<close>

theorem constraints_idempotent:
  assumes "addConstraints h d layers = (d1, Inr layers1)"
  shows "\<exists>layers2. addConstraints h d1 layers1 = (d1, Inr layers2) \<and>
           constraints_of_each layers2 = constraints_of_each layers1"
  using addConstraints_again [OF assms] by blast

text \<open>The demonstration forest: the second pass repeats the three pairs of the first.\<close>

theorem constraints_idempotent_witness:
  "addConstraints demo_host demo_dom demo_layers = (demo_dom, Inr demo_layers_result) \<and>
   (\<exists>layers2. addConstraints demo_host demo_dom demo_layers_result = (demo_dom, Inr layers2) \<and>
      constraints_of_each layers2 =
        [Some \<lparr>horizontal = MAX', vertical = MIN'\<rparr>,
         Some \<lparr>horizontal = CENTER, vertical = MIN'\<rparr>,
         Some \<lparr>horizontal = SCALE, vertical = MIN'\<rparr>])"
  using constraints_idempotent [OF demo_run] demo_run
  by (simp add: demo_layers_result_def frame_result_def text_result_def rectangle_result_def)

section \<open>Properties of the Border Decomposer\<close>

lemma capitalize_dir: "capitalize (dir_str dir) = Inr (drop 6 (border_property dir))"
  by (cases dir) (simp_all add: toUpperCase_def)

lemma border_property_drop: "''border'' @ drop 6 (border_property dir) = border_property dir"
  by (cases dir) simp_all

lemma border_match_Some:
  assumes "border_match s = Some (w, t, c)"
  shows "w \<noteq> [] \<and> t \<noteq> [] \<and> s \<noteq> []"
  using assms by (auto simp: border_match_def Let_def split: if_splits)

lemma per_side_emit:
  assumes "border_match (computedStyle (border_property dir)) = Some (bw, ty, col)"
      and "bw \<noteq> ''0''" and "ty \<noteq> ''none''" and "col \<noteq> []" and "getRgb col = Some rgb"
  shows "addStrokesFromIndividualBorders getRgb dir rect computedStyle layers el =
           Inr (layers @
             [Layer
                \<lparr>type = RECTANGLE, ref = Some el,
                 x_pos = Some (case dir of
                                 Left \<Rightarrow> num_sub (rect_left rect) (parseFloat bw)
                               | Right \<Rightarrow> rect_right rect
                               | _ \<Rightarrow> rect_left rect),
                 y_pos = Some (case dir of
                                 Top \<Rightarrow> num_sub (rect_top rect) (parseFloat bw)
                               | Bottom \<Rightarrow> rect_bottom rect
                               | _ \<Rightarrow> rect_top rect),
                 width = Some (case dir of
                                 Top \<Rightarrow> rect_width rect
                               | Bottom \<Rightarrow> rect_width rect
                               | _ \<Rightarrow> parseFloat bw),
                 height = Some (case dir of
                                  Left \<Rightarrow> rect_height rect
                                | Right \<Rightarrow> rect_height rect
                                | _ \<Rightarrow> parseFloat bw),
                 constraints = None, data = None,
                 fills = Some [solid_paint rgb],
                 strokes = None, strokeWeight = None,
                 topLeftRadius = None, topRightRadius = None,
                 bottomRightRadius = None, bottomLeftRadius = None\<rparr>
                []])"
proof -
  from border_match_Some [OF assms(1)]
  have ne: "bw \<noteq> []" "computedStyle (border_property dir) \<noteq> []" by simp_all
  show ?thesis
    using assms ne
    by (cases dir)
       (simp_all add: addStrokesFromIndividualBorders_def toUpperCase_def Let_def)
qed

lemma per_side_noop:
  assumes "computedStyle (border_property dir) = [] \<or>
           border_match (computedStyle (border_property dir)) = None \<or>
           (\<exists>w t c. border_match (computedStyle (border_property dir)) = Some (w, t, c) \<and>
                    (w = ''0'' \<or> t = ''none''))"
  shows "addStrokesFromIndividualBorders getRgb dir rect computedStyle layers el = Inr layers"
  using assms
  by (cases dir)
     (auto simp: addStrokesFromIndividualBorders_def toUpperCase_def Let_def)

lemma shorthand_noop:
  assumes "computedStyle ''border'' = [] \<or>
           border_match (computedStyle ''border'') = None \<or>
           (\<exists>w t c. border_match (computedStyle ''border'') = Some (w, t, c) \<and>
                    (w = ''0'' \<or> t = ''none''))"
  shows "addStrokesFromBorder getRgb computedStyle rectNode = rectNode"
  using assms
  by (auto simp: addStrokesFromBorder_def Let_def)

lemmas border_eval =
  border_match_def is_digit_or_dot_def is_digit_def startsWith_def is_space_def is_word_def
  is_line_terminator_def parseFloat_def digits_value_def digit_value_def style_of_def
  demo_getRgb_def demo_rect_def solid_paint_def alpha_or_1_def Let_def

lemma top_border_match:
  "border_match (top_border_style ''borderTop'') = Some (''2'', ''solid'', ''rgb(255, 0, 0)'')"
  by (simp add: top_border_style_def border_eval)

lemma other_border_match:
  "side \<noteq> Top \<Longrightarrow>
   border_match (top_border_style (border_property side)) = Some (''0'', ''none'', ''rgb(0, 0, 0)'')"
  by (cases side) (simp_all add: top_border_style_def border_eval)

lemma parseFloat_2: "parseFloat ''2'' = Num 2"
  by (simp add: border_eval)

text \<open>
  C4.  Per-side mode.  When the border string of the side \<open>top\<close> matches with width
  \<open>2\<close>, style \<open>solid\<close> and a colour that resolves without alpha, and the strings of
  the other three sides match with style \<open>none\<close>, the call for \<open>top\<close> appends exactly
  one rectangle, of the width of the box, of height 2, at \<open>y = box.top - 2\<close>, filled
  with one solid paint of the resolved colour at opacity 1, and the calls for the
  other sides append nothing.  Symmetrically, for any side whose string yields a
  rectangle: \<open>left\<close> sits at \<open>x = box.left - width\<close>, \<open>right\<close> at \<open>x = box.right\<close>,
  \<open>bottom\<close> at \<open>y = box.bottom\<close>, each spanning the full cross-axis of the box with
  the parsed width as its thickness.
\<close>

theorem per_side_border_rectangle:
  shows "(border_match (computedStyle ''borderTop'') = Some (''2'', ''solid'', col) \<and>
          col \<noteq> [] \<and> getRgb col = Some rgb \<and> rgb_a rgb = None \<and>
          (\<forall>side. side \<noteq> Top \<longrightarrow>
             (\<exists>w c. border_match (computedStyle (border_property side)) = Some (w, ''none'', c)))
          \<longrightarrow>
            addStrokesFromIndividualBorders getRgb Top rect computedStyle layers el =
              Inr (layers @
                [Layer
                   \<lparr>type = RECTANGLE, ref = Some el,
                    x_pos = Some (rect_left rect),
                    y_pos = Some (num_sub (rect_top rect) (Num 2)),
                    width = Some (rect_width rect),
                    height = Some (Num 2),
                    constraints = None, data = None,
                    fills = Some [SOLID \<lparr>color_r = rgb_r rgb, color_g = rgb_g rgb,
                                          color_b = rgb_b rgb\<rparr> (Num 1)],
                    strokes = None, strokeWeight = None,
                    topLeftRadius = None, topRightRadius = None,
                    bottomRightRadius = None, bottomLeftRadius = None\<rparr>
                   []]) \<and>
            (\<forall>side ls. side \<noteq> Top \<longrightarrow>
               addStrokesFromIndividualBorders getRgb side rect computedStyle ls el = Inr ls))
         \<and>
         (border_match (computedStyle (border_property dir)) = Some (bw, ty, col2) \<and>
          bw \<noteq> ''0'' \<and> ty \<noteq> ''none'' \<and> col2 \<noteq> [] \<and> getRgb col2 = Some rgb2
          \<longrightarrow>
            addStrokesFromIndividualBorders getRgb dir rect computedStyle layers el =
              Inr (layers @
                [Layer
                   \<lparr>type = RECTANGLE, ref = Some el,
                    x_pos = Some (case dir of
                                    Left \<Rightarrow> num_sub (rect_left rect) (parseFloat bw)
                                  | Right \<Rightarrow> rect_right rect
                                  | _ \<Rightarrow> rect_left rect),
                    y_pos = Some (case dir of
                                    Top \<Rightarrow> num_sub (rect_top rect) (parseFloat bw)
                                  | Bottom \<Rightarrow> rect_bottom rect
                                  | _ \<Rightarrow> rect_top rect),
                    width = Some (case dir of
                                    Top \<Rightarrow> rect_width rect
                                  | Bottom \<Rightarrow> rect_width rect
                                  | _ \<Rightarrow> parseFloat bw),
                    height = Some (case dir of
                                     Left \<Rightarrow> rect_height rect
                                   | Right \<Rightarrow> rect_height rect
                                   | _ \<Rightarrow> parseFloat bw),
                    constraints = None, data = None,
                    fills = Some [solid_paint rgb2],
                    strokes = None, strokeWeight = None,
                    topLeftRadius = None, topRightRadius = None,
                    bottomRightRadius = None, bottomLeftRadius = None\<rparr>
                   []]))"
proof (intro conjI impI)
  assume a: "border_match (computedStyle ''borderTop'') = Some (''2'', ''solid'', col) \<and>
          col \<noteq> [] \<and> getRgb col = Some rgb \<and> rgb_a rgb = None \<and>
          (\<forall>side. side \<noteq> Top \<longrightarrow>
             (\<exists>w c. border_match (computedStyle (border_property side)) = Some (w, ''none'', c)))"
  then have "border_match (computedStyle (border_property Top)) = Some (''2'', ''solid'', col)"
    by simp
  from per_side_emit [of computedStyle Top "''2''" "''solid''" col getRgb rgb rect layers el]
       this a
  show "addStrokesFromIndividualBorders getRgb Top rect computedStyle layers el =
              Inr (layers @
                [Layer
                   \<lparr>type = RECTANGLE, ref = Some el,
                    x_pos = Some (rect_left rect),
                    y_pos = Some (num_sub (rect_top rect) (Num 2)),
                    width = Some (rect_width rect),
                    height = Some (Num 2),
                    constraints = None, data = None,
                    fills = Some [SOLID \<lparr>color_r = rgb_r rgb, color_g = rgb_g rgb,
                                          color_b = rgb_b rgb\<rparr> (Num 1)],
                    strokes = None, strokeWeight = None,
                    topLeftRadius = None, topRightRadius = None,
                    bottomRightRadius = None, bottomLeftRadius = None\<rparr>
                   []])"
    by (simp add: parseFloat_2 solid_paint_def alpha_or_1_def)
  show "\<forall>side ls. side \<noteq> Top \<longrightarrow>
               addStrokesFromIndividualBorders getRgb side rect computedStyle ls el = Inr ls"
  proof (intro allI impI)
    fix side ls
    assume "side \<noteq> Top"
    with a obtain w c where
      "border_match (computedStyle (border_property side)) = Some (w, ''none'', c)"
      by blast
    then show "addStrokesFromIndividualBorders getRgb side rect computedStyle ls el = Inr ls"
      by (intro per_side_noop) blast
  qed
next
  assume "border_match (computedStyle (border_property dir)) = Some (bw, ty, col2) \<and>
          bw \<noteq> ''0'' \<and> ty \<noteq> ''none'' \<and> col2 \<noteq> [] \<and> getRgb col2 = Some rgb2"
  then show "addStrokesFromIndividualBorders getRgb dir rect computedStyle layers el =
              Inr (layers @
                [Layer
                   \<lparr>type = RECTANGLE, ref = Some el,
                    x_pos = Some (case dir of
                                    Left \<Rightarrow> num_sub (rect_left rect) (parseFloat bw)
                                  | Right \<Rightarrow> rect_right rect
                                  | _ \<Rightarrow> rect_left rect),
                    y_pos = Some (case dir of
                                    Top \<Rightarrow> num_sub (rect_top rect) (parseFloat bw)
                                  | Bottom \<Rightarrow> rect_bottom rect
                                  | _ \<Rightarrow> rect_top rect),
                    width = Some (case dir of
                                    Top \<Rightarrow> rect_width rect
                                  | Bottom \<Rightarrow> rect_width rect
                                  | _ \<Rightarrow> parseFloat bw),
                    height = Some (case dir of
                                     Left \<Rightarrow> rect_height rect
                                   | Right \<Rightarrow> rect_height rect
                                   | _ \<Rightarrow> parseFloat bw),
                    constraints = None, data = None,
                    fills = Some [solid_paint rgb2],
                    strokes = None, strokeWeight = None,
                    topLeftRadius = None, topRightRadius = None,
                    bottomRightRadius = None, bottomLeftRadius = None\<rparr>
                   []])"
    using per_side_emit [of computedStyle dir bw ty col2 getRgb rgb2 rect layers el]
    by blast
qed

text \<open>
  Scenario C on a box of 100 by 50 at (20, 10): \<open>2px solid rgb(255, 0, 0)\<close> on top,
  none elsewhere.
\<close>

theorem per_side_border_rectangle_witness:
  "addStrokesFromIndividualBorders demo_getRgb Top demo_rect top_border_style [] 1 =
     Inr [Layer
            \<lparr>type = RECTANGLE, ref = Some 1,
             x_pos = Some (Num 20), y_pos = Some (Num 8),
             width = Some (Num 100), height = Some (Num 2),
             constraints = None, data = None,
             fills = Some [SOLID \<lparr>color_r = Num 1, color_g = Num 0, color_b = Num 0\<rparr> (Num 1)],
             strokes = None, strokeWeight = None,
             topLeftRadius = None, topRightRadius = None,
             bottomRightRadius = None, bottomLeftRadius = None\<rparr>
            []] \<and>
   addStrokesFromIndividualBorders demo_getRgb Left demo_rect top_border_style [] 1 = Inr [] \<and>
   addStrokesFromIndividualBorders demo_getRgb Right demo_rect top_border_style [] 1 = Inr [] \<and>
   addStrokesFromIndividualBorders demo_getRgb Bottom demo_rect top_border_style [] 1 = Inr []"
proof -
  have others: "\<forall>side. side \<noteq> Top \<longrightarrow>
      (\<exists>w c. border_match (top_border_style (border_property side)) = Some (w, ''none'', c))"
    using other_border_match by blast
  have rgb: "demo_getRgb ''rgb(255, 0, 0)'' =
      Some \<lparr>rgb_r = Num 1, rgb_g = Num 0, rgb_b = Num 0, rgb_a = None\<rparr>"
    by (simp add: demo_getRgb_def)
  from per_side_border_rectangle
         [of top_border_style "''rgb(255, 0, 0)''" demo_getRgb
             "\<lparr>rgb_r = Num 1, rgb_g = Num 0, rgb_b = Num 0, rgb_a = None\<rparr>"
             demo_rect "[]" 1]
       top_border_match others rgb
  show ?thesis
    by (simp add: demo_rect_def)
qed

text \<open>
  C5 (as amended).  In both modes the operation changes nothing and raises nothing
  when the border string is missing, or does not match the pattern, or matches with
  the width text \<open>0\<close> (the single character), or matches with the style \<open>none\<close>:
  per-side mode returns the layers as they were, shorthand mode the node as it was.
\<close>

theorem border_no_output:
  shows "(computedStyle (border_property dir) = [] \<or>
          border_match (computedStyle (border_property dir)) = None \<or>
          (\<exists>w t c. border_match (computedStyle (border_property dir)) = Some (w, t, c) \<and>
                   (w = ''0'' \<or> t = ''none''))
          \<longrightarrow> addStrokesFromIndividualBorders getRgb dir rect computedStyle layers el =
                Inr layers)
         \<and>
         (computedStyle ''border'' = [] \<or>
          border_match (computedStyle ''border'') = None \<or>
          (\<exists>w t c. border_match (computedStyle ''border'') = Some (w, t, c) \<and>
                   (w = ''0'' \<or> t = ''none''))
          \<longrightarrow> addStrokesFromBorder getRgb computedStyle rectNode = rectNode)"
  using per_side_noop [of computedStyle dir getRgb rect layers el]
        shorthand_noop [of computedStyle getRgb rectNode]
  by blast

text \<open>The left side of the element of scenario C, and its missing shorthand.\<close>

theorem border_no_output_witness:
  "border_match (top_border_style (border_property Left)) =
     Some (''0'', ''none'', ''rgb(0, 0, 0)'') \<and>
   top_border_style ''border'' = [] \<and>
   addStrokesFromIndividualBorders demo_getRgb Left demo_rect top_border_style demo_layers 1 =
     Inr demo_layers \<and>
   addStrokesFromBorder demo_getRgb top_border_style (blank_node RECTANGLE (Some 1)) =
     blank_node RECTANGLE (Some 1)"
proof -
  have m: "border_match (top_border_style (border_property Left)) =
     Some (''0'', ''none'', ''rgb(0, 0, 0)'')"
    using other_border_match [of Left] by simp
  have e: "top_border_style ''border'' = []"
    by (simp add: top_border_style_def style_of_def)
  from border_no_output
         [of top_border_style Left demo_getRgb demo_rect demo_layers 1
             "blank_node RECTANGLE (Some 1)"] m e
  show ?thesis by simp
qed

text \<open>
  C5 as stated fails: the width text \<open>0.0\<close> parses to zero, yet it is not the text
  \<open>0\<close> the source compares with, so per-side mode appends a rectangle of height 0
  and shorthand mode sets a stroke of weight 0.
\<close>

theorem zero_width_text_counterexample:
  "border_match (zero_width_style ''borderTop'') =
     Some (''0.0'', ''solid'', ''rgb(255, 0, 0)'') \<and>
   border_match (zero_width_style ''border'') =
     Some (''0.0'', ''solid'', ''rgb(255, 0, 0)'') \<and>
   parseFloat ''0.0'' = Num 0 \<and>
   addStrokesFromIndividualBorders demo_getRgb Top demo_rect zero_width_style [] 1 =
     Inr [Layer
            \<lparr>type = RECTANGLE, ref = Some 1,
             x_pos = Some (Num 20), y_pos = Some (Num 10),
             width = Some (Num 100), height = Some (Num 0),
             constraints = None, data = None,
             fills = Some [SOLID \<lparr>color_r = Num 1, color_g = Num 0, color_b = Num 0\<rparr> (Num 1)],
             strokes = None, strokeWeight = None,
             topLeftRadius = None, topRightRadius = None,
             bottomRightRadius = None, bottomLeftRadius = None\<rparr>
            []] \<and>
   addStrokesFromBorder demo_getRgb zero_width_style (blank_node RECTANGLE (Some 1)) =
     (blank_node RECTANGLE (Some 1))
       \<lparr>strokes := Some [SOLID \<lparr>color_r = Num 1, color_g = Num 0, color_b = Num 0\<rparr> (Num 1)],
        strokeWeight := Some (Num 0)\<rparr>"
  by (simp add: zero_width_style_def addStrokesFromIndividualBorders_def
      addStrokesFromBorder_def toUpperCase_def blank_node_def border_eval)

text \<open>
  C6 does not hold of the code: \<open>rgb.a || 1\<close> takes an alpha of 0 for a missing one.
  A border whose colour resolves with alpha 0 gets a paint of opacity 1 in both
  modes, where the claim asks for the alpha, 0.
\<close>

theorem transparent_border_painted_opaque:
  "demo_getRgb ''rgba(0, 0, 0, 0)'' =
     Some \<lparr>rgb_r = Num 0, rgb_g = Num 0, rgb_b = Num 0, rgb_a = Some (Num 0)\<rparr> \<and>
   addStrokesFromBorder demo_getRgb transparent_border_style (blank_node RECTANGLE (Some 1)) =
     (blank_node RECTANGLE (Some 1))
       \<lparr>strokes := Some [SOLID \<lparr>color_r = Num 0, color_g = Num 0, color_b = Num 0\<rparr> (Num 1)],
        strokeWeight := Some (Num 2)\<rparr> \<and>
   addStrokesFromIndividualBorders demo_getRgb Top demo_rect transparent_border_style [] 1 =
     Inr [Layer
            \<lparr>type = RECTANGLE, ref = Some 1,
             x_pos = Some (Num 20), y_pos = Some (Num 8),
             width = Some (Num 100), height = Some (Num 2),
             constraints = None, data = None,
             fills = Some [SOLID \<lparr>color_r = Num 0, color_g = Num 0, color_b = Num 0\<rparr> (Num 1)],
             strokes = None, strokeWeight = None,
             topLeftRadius = None, topRightRadius = None,
             bottomRightRadius = None, bottomLeftRadius = None\<rparr>
            []]"
  by (simp add: transparent_border_style_def addStrokesFromIndividualBorders_def
      addStrokesFromBorder_def toUpperCase_def blank_node_def border_eval)

text \<open>
  C9.  A call of the per-side entry point raises nothing and either returns the
  layers as they were or returns them with one node appended at the end; that node
  is a \<open>RECTANGLE\<close> whose \<open>ref\<close> is the owning element.  No entry that was there is
  removed or changed.
\<close>

theorem per_side_appends_at_most_one:
  "addStrokesFromIndividualBorders getRgb dir rect computedStyle layers el = Inr layers \<or>
   (\<exists>node. addStrokesFromIndividualBorders getRgb dir rect computedStyle layers el =
              Inr (layers @ [Layer node []]) \<and>
            type node = RECTANGLE \<and> ref node = Some el)"
  by (cases dir)
     (auto simp: addStrokesFromIndividualBorders_def toUpperCase_def Let_def
           split: option.splits)

text \<open>The top border of scenario C, appended behind the demonstration forest.\<close>

theorem per_side_appends_at_most_one_witness:
  "\<exists>node. addStrokesFromIndividualBorders demo_getRgb Top demo_rect top_border_style
             demo_layers 1 = Inr (demo_layers @ [Layer node []]) \<and>
          type node = RECTANGLE \<and> ref node = Some 1"
proof -
  have "addStrokesFromIndividualBorders demo_getRgb Top demo_rect top_border_style
          demo_layers 1 \<noteq> Inr demo_layers"
    using per_side_emit [of top_border_style Top "''2''" "''solid''" "''rgb(255, 0, 0)''"
            demo_getRgb _ demo_rect demo_layers 1] top_border_match
    by (simp add: demo_getRgb_def)
  with per_side_appends_at_most_one
         [of demo_getRgb Top demo_rect top_border_style demo_layers 1]
  show ?thesis by blast
qed

section \<open>Properties of the Style Snapshot Reader\<close>

lemma pick_step_unchanged:
  assumes "\<forall>p \<in> set paths. Some (object p) = map_of dflts p"
  shows "foldl (\<lambda>newObject path.
              if object path \<noteq> []
              then (if Some (object path) \<noteq> map_of dflts path
                    then AList.update path (object path) newObject
                    else newObject)
              else newObject)
           acc paths = acc"
  using assms by (induction paths arbitrary: acc) simp_all

lemma pick_all_default:
  assumes "\<forall>p \<in> set paths. Some (object p) = map_of dflts p"
  shows "pick dflts object paths = []"
  unfolding pick_def using assms by (rule pick_step_unchanged)

text \<open>
  C8.  For an element of the rendering host (an \<open>HTMLElement\<close> or an \<open>SVGElement\<close>)
  whose style resolves, and whose resolved value of every allow-listed property is
  the baseline of that property (for the element's resolved text colour), the
  reader returns the empty mapping.
\<close>

theorem baseline_styles_give_empty_mapping:
  assumes "instanceofHTMLElement d element \<or> instanceofSVGElement d element"
      and "getComputedStyle h d element pseudo = Inr styles"
      and "\<forall>p \<in> set allow_list.
             Some (property h styles d p) = map_of (defaults (property h styles d ''color'')) p"
  shows "getAppliedComputedStyles h d element pseudo = Inr []"
  using assms by (simp add: getAppliedComputedStyles_def Let_def pick_all_default)

text \<open>Element 1 under a host that resolves every property to its baseline.\<close>

theorem baseline_styles_give_empty_mapping_witness:
  "instanceofHTMLElement demo_dom 1 \<and>
   property baseline_host 1 demo_dom ''border'' = ''0px none rgb(0, 0, 0)'' \<and>
   property baseline_host 1 demo_dom ''opacity'' = ''1'' \<and>
   getAppliedComputedStyles baseline_host demo_dom 1 None = Inr []"
  using baseline_styles_give_empty_mapping [of demo_dom 1 baseline_host None 1]
  by (simp add: baseline_host_def demo_dom_def allow_list_def defaults_def style_of_def)

section \<open>Properties of the Corner Radius Mapper\<close>

text \<open>
  C10.  Each of the four corner fields of the result is the parsed value when the
  length parser returns an object for that corner's string, and the field of the
  node as it was when the parser returns \<open>null\<close>; each corner depends on its own
  string only.  Setting the four corner fields back gives the node as it was: no
  other field is touched.
\<close>

theorem corner_radii_written_independently:
  "topLeftRadius (setBorderRadii parseUnits computedStyle rectNode) =
     (case parseUnits (computedStyle ''borderTopLeftRadius'') of
        None \<Rightarrow> topLeftRadius rectNode
      | Some u \<Rightarrow> Some (units_value u)) \<and>
   topRightRadius (setBorderRadii parseUnits computedStyle rectNode) =
     (case parseUnits (computedStyle ''borderTopRightRadius'') of
        None \<Rightarrow> topRightRadius rectNode
      | Some u \<Rightarrow> Some (units_value u)) \<and>
   bottomRightRadius (setBorderRadii parseUnits computedStyle rectNode) =
     (case parseUnits (computedStyle ''borderBottomRightRadius'') of
        None \<Rightarrow> bottomRightRadius rectNode
      | Some u \<Rightarrow> Some (units_value u)) \<and>
   bottomLeftRadius (setBorderRadii parseUnits computedStyle rectNode) =
     (case parseUnits (computedStyle ''borderBottomLeftRadius'') of
        None \<Rightarrow> bottomLeftRadius rectNode
      | Some u \<Rightarrow> Some (units_value u)) \<and>
   (setBorderRadii parseUnits computedStyle rectNode)
     \<lparr>topLeftRadius := topLeftRadius rectNode,
      topRightRadius := topRightRadius rectNode,
      bottomRightRadius := bottomRightRadius rectNode,
      bottomLeftRadius := bottomLeftRadius rectNode\<rparr> = rectNode"
  by (simp add: setBorderRadii_def Let_def split: option.splits)

text \<open>Two corners parse, the third does not, the fourth is missing.\<close>

theorem corner_radii_written_independently_witness:
  "setBorderRadii demo_parseUnits corner_style (blank_node RECTANGLE (Some 1)) =
     (blank_node RECTANGLE (Some 1))
       \<lparr>topLeftRadius := Some (Num 4), topRightRadius := Some (Num 0)\<rparr>"
proof -
  have p: "demo_parseUnits (corner_style ''borderTopLeftRadius'') = Some \<lparr>units_value = Num 4\<rparr>"
    "demo_parseUnits (corner_style ''borderTopRightRadius'') = Some \<lparr>units_value = Num 0\<rparr>"
    "demo_parseUnits (corner_style ''borderBottomRightRadius'') = None"
    "demo_parseUnits (corner_style ''borderBottomLeftRadius'') = None"
    by (simp_all add: demo_parseUnits_def corner_style_def style_of_def)
  from corner_radii_written_independently
         [of demo_parseUnits corner_style "blank_node RECTANGLE (Some 1)"]
  show ?thesis
    unfolding p by (cases "setBorderRadii demo_parseUnits corner_style (blank_node RECTANGLE (Some 1))")
      (simp add: blank_node_def)
qed

end
